theory Spec2Isabelle
  imports
    Complex_Main
    "HOL-Library.Char_ord"
    "HOL-Library.List_Lexorder"
    "HOL-Library.Product_Lexorder"
begin

section \<open>JavaScript values and errors\<close>

text \<open>
  The Cloud Functions of the repository are JavaScript.  Numbers that hold XP, counters and
  millisecond timestamps are integers in every path modelled here and are \<^typ>\<open>int\<close>;
  trust scores, GPS accuracies and coordinates are \<^typ>\<open>real\<close> (the arithmetic of
  IEEE doubles is idealised).  A document field that may be absent is an \<^typ>\<open>'a option\<close>.

  \<open>x || d\<close> on a numeric field yields \<open>d\<close> when the field is absent or zero.
\<close>

definition js_or :: "'a::zero option \<Rightarrow> 'a \<Rightarrow> 'a" where
  "js_or x d = (case x of None \<Rightarrow> d | Some v \<Rightarrow> if v = 0 then d else v)"

text \<open>\<open>Math.round\<close> rounds to the nearest integer, ties towards plus infinity.\<close>

definition js_round :: "real \<Rightarrow> int" where
  "js_round x = \<lfloor>x + 1 / 2\<rfloor>"

text \<open>\<open>s.startsWith(p)\<close> and \<open>s.includes(p)\<close>.\<close>

definition startsWith :: "string \<Rightarrow> string \<Rightarrow> bool" where
  "startsWith s p = (take (length p) s = p)"

fun includes_str :: "string \<Rightarrow> string \<Rightarrow> bool" where
  "includes_str [] p = (p = [])"
| "includes_str (c # cs) p = (startsWith (c # cs) p \<or> includes_str cs p)"

text \<open>
  The error codes of \<open>functions.https.HttpsError\<close> that the source throws, and the other
  exceptions that occur: a Firestore error (an \<open>update\<close> of a missing document; its
  \<open>code\<close> is a number), a \<open>TypeError\<close>, a \<open>ReferenceError\<close> and a plain \<open>Error\<close>.
\<close>

datatype FunctionsErrorCode =
    unauthenticated | invalid_argument | not_found | failed_precondition
  | already_exists | permission_denied | internal

datatype js_error =
    HttpsError FunctionsErrorCode | FirestoreError | TypeError | ReferenceError | Error

text \<open>The string an \<open>HttpsError\<close> carries in its \<open>code\<close> property: the constructor's first argument.\<close>

fun code_string :: "FunctionsErrorCode \<Rightarrow> string" where
  "code_string unauthenticated = ''unauthenticated''"
| "code_string invalid_argument = ''invalid-argument''"
| "code_string not_found = ''not-found''"
| "code_string failed_precondition = ''failed-precondition''"
| "code_string already_exists = ''already-exists''"
| "code_string permission_denied = ''permission-denied''"
| "code_string internal = ''internal''"

text \<open>
  The two catch clauses of the callable functions.  \<open>adminGrantXP\<close> and \<open>adjustUserXP\<close>:
  \<^verbatim>\<open>if (error.code) throw error; throw new HttpsError('internal', ...)\<close>.
  \<open>redeemByQR\<close>, \<open>validateQRCode\<close> and \<open>validateRedemption\<close>:
  \<^verbatim>\<open>if (error.code && error.code.startsWith('functions/')) throw error;
  throw new HttpsError('internal', ...)\<close>; on a numeric \<open>code\<close> the call of
  \<open>startsWith\<close> is itself a \<open>TypeError\<close>.
\<close>

fun catch_code :: "js_error \<Rightarrow> js_error" where
  "catch_code (HttpsError c) = HttpsError c"
| "catch_code FirestoreError = FirestoreError"
| "catch_code e = HttpsError internal"

fun catch_functions_prefix :: "js_error \<Rightarrow> js_error" where
  "catch_functions_prefix (HttpsError c) =
     (if startsWith (code_string c) ''functions/'' then HttpsError c else HttpsError internal)"
| "catch_functions_prefix FirestoreError = TypeError"
| "catch_functions_prefix e = HttpsError internal"


section \<open>Levels\<close>

text \<open>
  \<open>calculateLevel\<close> of \<open>xpManagement.js\<close> (and the first declaration of that name in the
  main functions file):
  \<^verbatim>\<open>if (xp < 0) return 1; return Math.floor(Math.sqrt(xp / 100)) + 1;\<close>
\<close>

definition calculateLevel :: "int \<Rightarrow> int" where
  "calculateLevel xp = (if xp < 0 then 1 else \<lfloor>sqrt (real_of_int xp / 100)\<rfloor> + 1)"

text \<open>
  The second declaration of \<open>calculateLevel\<close> in the main functions file, in its QR
  section: \<^verbatim>\<open>return Math.floor(xp / 500) + 1;\<close>.  Both are function declarations of one
  scope, so inside that file the name denotes this one; \<open>redeemByQR\<close> calls it.
\<close>

definition calculateLevel_qr :: "int \<Rightarrow> int" where
  "calculateLevel_qr xp = \<lfloor>real_of_int xp / 500\<rfloor> + 1"

text \<open>\<open>calculateXPLevel\<close>, used by \<open>adjustUserXP\<close>: the same formula.\<close>

definition calculateXPLevel :: "int \<Rightarrow> int" where
  "calculateXPLevel xp = \<lfloor>real_of_int xp / 500\<rfloor> + 1"


section \<open>Documents and the store\<close>

text \<open>
  The fields of a \<open>users/{uid}\<close> document that the modelled functions read or write.
\<close>

record user =
  xpPoints :: "int option"
  xp :: "int option"
  level :: "int option"
  xpPending :: "int option"
  spotsDiscovered :: "int option"
  challengesCompleted :: "int option"
  trustScore :: "real option"
  spotSubmissions :: "int option"
  spotApprovedCount :: "int option"
  spotRejectedCount :: "int option"
  isShadowBanned :: "bool option"
  userCreatedAt :: "int option"
  role :: "string option"

text \<open>An entry of the \<open>xpTransactions\<close> collection.\<close>

record xp_transaction =
  userId :: string
  action :: string
  amount :: int
  description :: string
  spotId :: "string option"
  previousXP :: "int option"
  newXP :: "int option"
  previousLevel :: "int option"
  newLevel :: "int option"
  leveledUp :: "bool option"
  timestamp :: int
  txType :: string
  adminId :: "string option"

text \<open>A \<open>rewards/{id}\<close> document.\<close>

record reward =
  rewardTitle :: string
  rewardSponsorId :: string
  sponsorName :: "string option"
  active :: bool
  expiresAt :: "int option"
  maxRedemptions :: "int option"
  currentRedemptions :: "int option"
  xpRequired :: "int option"
  qrCode :: "string option"

text \<open>
  A \<open>users/{uid}/redemptions/{id}\<close> document, with its own id.  \<open>redeemByQR\<close> writes the
  owner's uid into the \<open>userId\<close> field, so the field also gives the path.
\<close>

record redemption =
  redemptionId :: string
  redemptionUserId :: string
  rewardId :: string
  redemptionTitle :: string
  sponsorId :: string
  xpUsed :: int
  redeemedAt :: int
  used :: bool
  usedAt :: "int option"
  validatedBy :: "string option"
  qrToken :: string
  redemptionQRCode :: string

text \<open>A \<open>sponsors/{id}\<close> document.\<close>

record sponsor =
  ownerUserId :: "string option"
  sponsorUserId :: "string option"
  qrSecret :: "string option"
  qrVersion :: "int option"
  qrExpiryMinutes :: "int option"
  lastQrNonce :: "string option"

text \<open>An \<open>adminUsers/{uid}\<close> document.\<close>

record admin_user =
  adminRole :: "string option"
  isActive :: "bool option"

text \<open>A notification in \<open>users/{uid}/notifications\<close>.\<close>

record notification =
  notifiedUser :: string
  notificationType :: string
  notifiedRedemption :: string

text \<open>
  A \<open>spots/{id}\<close> document: what the client submits and the verification fields.
\<close>

record locationMetadata =
  isMockLocation :: "bool option"
  accuracy :: "real option"

record exif =
  dateTimeOriginal :: "int option"
  gpsLatitude :: "real option"
  gpsLongitude :: "real option"

record photoMetadata =
  hash :: "string option"
  exifData :: "exif option"

record spot =
  spot_id :: string
  createdBy :: string
  createdAt :: int
  latitude :: real
  longitude :: real
  title :: "string option"
  spotDescription :: "string option"
  category :: string
  primaryImageUrl :: "string option"
  imageUrls :: "string list option"
  locationMeta :: "locationMetadata option"
  photoMeta :: "photoMetadata option"
  verificationStatus :: "string option"
  verificationScore :: "int option"
  verificationReasons :: "string list option"
  verificationFlags :: "string list option"
  xpReleased :: "bool option"
  spotXpPending :: "int option"
  reportCount :: "int option"

text \<open>
  The store.  \<open>xpTransactions\<close> is in order of creation.  \<open>redemptions\<close> is the collection
  group of all users' redemptions in the order a collection-group query without
  \<open>orderBy\<close> returns it: by document path, that is by owner uid, then by id.
  \<open>rewards\<close> is in order of document id.
\<close>

record store =
  users :: "string \<rightharpoonup> user"
  xpTransactions :: "xp_transaction list"
  rewards :: "(string \<times> reward) list"
  redemptions :: "redemption list"
  sponsors :: "string \<rightharpoonup> sponsor"
  adminUsers :: "string \<rightharpoonup> admin_user"
  notifications :: "notification list"
  spots :: "spot list"


section \<open>The XP ledger\<close>

text \<open>
  The optional \<open>metadata\<close> argument of \<open>awardUserXP\<close>, an object of the caller's choice
  (the callable \<open>awardXP\<close> passes the client's).  The source spreads it over the ledger
  entry last (\<^verbatim>\<open>type: "AWARD", ...metadata\<close>), so every key it carries replaces the field
  of that name: also \<open>userId\<close>, \<open>amount\<close> and \<open>type\<close>.  A key is the field of the record
  below with the prefix \<open>md\<close>; \<open>None\<close> is an absent key.
\<close>

record metadata =
  mdUserId :: "string option"
  mdAction :: "string option"
  mdAmount :: "int option"
  mdDescription :: "string option"
  mdSpotId :: "string option"
  mdChallengeId :: "string option"
  mdPreviousXP :: "int option"
  mdNewXP :: "int option"
  mdPreviousLevel :: "int option"
  mdNewLevel :: "int option"
  mdLeveledUp :: "bool option"
  mdTimestamp :: "int option"
  mdType :: "string option"
  mdAdminId :: "string option"

text \<open>\<open>{field: v, ...metadata}\<close> on one field: the key of the metadata wins when present.\<close>

definition spread :: "'a \<Rightarrow> 'a option \<Rightarrow> 'a" where
  "spread v k = (case k of None \<Rightarrow> v | Some w \<Rightarrow> w)"

definition spread_opt :: "'a option \<Rightarrow> 'a option \<Rightarrow> 'a option" where
  "spread_opt v k = (case k of None \<Rightarrow> v | Some w \<Rightarrow> Some w)"

record award_result =
  newTotalXP :: int
  awardedLevel :: int
  awardLeveledUp :: bool

text \<open>
  \<open>awardUserXP(db, userId, action, amount, metadata)\<close> of \<open>xpManagement.js\<close>: one
  transaction.  \<open>now\<close> is the server timestamp.
\<close>

definition awardUserXP ::
  "int \<Rightarrow> string \<Rightarrow> string \<Rightarrow> int \<Rightarrow> metadata \<Rightarrow> store \<Rightarrow> (js_error + award_result) \<times> store" where
  "awardUserXP now uid act amt md s =
     (case users s uid of
        None \<Rightarrow> (Inl Error, s)
      | Some userData \<Rightarrow>
          let currentXP = js_or (xpPoints userData) 0;
              newTotal = currentXP + amt;
              currentLevel = calculateLevel currentXP;
              newLvl = calculateLevel newTotal;
              up = (newLvl > currentLevel);
              updates = userData\<lparr>xpPoints := Some newTotal, level := Some newLvl\<rparr>;
              updates' =
                (if act = ''VISIT_SPOT''
                 then updates\<lparr>spotsDiscovered := Some (js_or (spotsDiscovered userData) 0 + 1)\<rparr>
                 else if act = ''COMPLETE_CHALLENGE''
                 then updates\<lparr>challengesCompleted :=
                        Some (js_or (challengesCompleted userData) 0 + 1)\<rparr>
                 else updates);
              entry = \<lparr>userId = spread uid (mdUserId md),
                       action = spread act (mdAction md),
                       amount = spread amt (mdAmount md),
                       description = spread (''XP for '' @ act) (mdDescription md),
                       spotId = mdSpotId md,
                       previousXP = spread_opt (Some currentXP) (mdPreviousXP md),
                       newXP = spread_opt (Some newTotal) (mdNewXP md),
                       previousLevel = spread_opt (Some currentLevel) (mdPreviousLevel md),
                       newLevel = spread_opt (Some newLvl) (mdNewLevel md),
                       leveledUp = spread_opt (Some up) (mdLeveledUp md),
                       timestamp = spread now (mdTimestamp md),
                       txType = spread ''AWARD'' (mdType md),
                       adminId = mdAdminId md\<rparr>
          in (Inr \<lparr>newTotalXP = newTotal, awardedLevel = newLvl, awardLeveledUp = up\<rparr>,
              s\<lparr>users := (users s)(uid \<mapsto> updates'),
                xpTransactions := xpTransactions s @ [entry]\<rparr>))"

text \<open>\<open>releaseSpotXP(db, userId, spotId, amount, description)\<close> of \<open>xpManagement.js\<close>.\<close>

definition releaseSpotXP ::
  "int \<Rightarrow> string \<Rightarrow> string \<Rightarrow> int \<Rightarrow> string \<Rightarrow> store \<Rightarrow> (js_error + award_result) \<times> store" where
  "releaseSpotXP now uid sp amt descr s =
     (case users s uid of
        None \<Rightarrow> (Inl Error, s)
      | Some userData \<Rightarrow>
          let currentXP = js_or (xpPoints userData) 0;
              pendingXP = js_or (xpPending userData) 0;
              newTotal = currentXP + amt;
              newPendingXP = max 0 (pendingXP - amt);
              currentLevel = calculateLevel currentXP;
              newLvl = calculateLevel newTotal;
              up = (newLvl > currentLevel);
              entry = \<lparr>userId = uid, action = ''SPOT_APPROVED'', amount = amt,
                       description = descr, spotId = Some sp,
                       previousXP = Some currentXP, newXP = Some newTotal,
                       previousLevel = Some currentLevel, newLevel = Some newLvl,
                       leveledUp = Some up, timestamp = now, txType = ''AWARD'',
                       adminId = None\<rparr>
          in (Inr \<lparr>newTotalXP = newTotal, awardedLevel = newLvl, awardLeveledUp = up\<rparr>,
              s\<lparr>users := (users s)(uid \<mapsto>
                    userData\<lparr>xpPoints := Some newTotal, xpPending := Some newPendingXP,
                               level := Some newLvl\<rparr>),
                xpTransactions := xpTransactions s @ [entry]\<rparr>))"

text \<open>\<open>logXPDenial\<close> of \<open>xpManagement.js\<close>: an entry of negative amount, no change of the user.\<close>

definition logXPDenial :: "int \<Rightarrow> string \<Rightarrow> string \<Rightarrow> int \<Rightarrow> string \<Rightarrow> store \<Rightarrow> store" where
  "logXPDenial now uid sp amt reason s =
     s\<lparr>xpTransactions := xpTransactions s @
         [\<lparr>userId = uid, action = ''SPOT_REJECTED'', amount = - amt, description = reason,
           spotId = Some sp, previousXP = None, newXP = None, previousLevel = None,
           newLevel = None, leveledUp = None, timestamp = now, txType = ''DENIAL'',
           adminId = None\<rparr>]\<rparr>"

text \<open>
  The callable \<open>adminGrantXP\<close>.  The request carries the caller's uid when authenticated
  and the fields \<open>userId\<close>, \<open>xpAmount\<close>, \<open>reason\<close>; an absent string field is the empty
  string and an absent number is \<open>0\<close>, which the source's \<open>!x\<close> tests treat alike.
\<close>

record xp_request =
  reqUserId :: string
  reqXpAmount :: int
  reqReason :: string
  reqType :: "string option"

record grant_result =
  grantPreviousXP :: int
  grantNewXP :: int
  grantAmount :: int

definition adminGrantXP ::
  "string option \<Rightarrow> xp_request \<Rightarrow> store \<Rightarrow> (js_error + grant_result) \<times> store" where
  "adminGrantXP auth data s =
     (if auth = None then (Inl (catch_code (HttpsError unauthenticated)), s)
      else if reqUserId data = [] \<or> reqXpAmount data = 0 \<or> reqReason data = []
        then (Inl (catch_code (HttpsError invalid_argument)), s)
      else if reqXpAmount data \<le> 0
        then (Inl (catch_code (HttpsError invalid_argument)), s)
      else
        (case users s (reqUserId data) of
           None \<Rightarrow> (Inl (catch_code (HttpsError not_found)), s)
         | Some userData \<Rightarrow>
             let currentXP = js_or (xpPoints userData) (js_or (xp userData) 0);
                 new = currentXP + reqXpAmount data
             in (Inr \<lparr>grantPreviousXP = currentXP, grantNewXP = new,
                      grantAmount = reqXpAmount data\<rparr>,
                 s\<lparr>users := (users s)(reqUserId data \<mapsto>
                       userData\<lparr>xpPoints := Some new, xp := Some new\<rparr>)\<rparr>)))"

text \<open>\<open>checkIsAdmin(uid)\<close>.\<close>

definition checkIsAdmin :: "store \<Rightarrow> string \<Rightarrow> bool" where
  "checkIsAdmin s uid =
     (case adminUsers s uid of
        Some adminData \<Rightarrow>
          adminRole adminData \<in> {Some ''SUPER_ADMIN'', Some ''ADMIN''} \<and>
          isActive adminData = Some True
      | None \<Rightarrow>
          (case users s uid of
             Some userData \<Rightarrow> role userData \<in> {Some ''superadmin'', Some ''admin''}
           | None \<Rightarrow> False))"

text \<open>
  The callable \<open>adjustUserXP\<close>: the two argument checks are outside its \<open>try\<close>, the rest
  inside, the user update and the ledger entry in one transaction.
\<close>

definition adjustUserXP ::
  "int \<Rightarrow> string option \<Rightarrow> xp_request \<Rightarrow> store \<Rightarrow> (js_error + grant_result) \<times> store" where
  "adjustUserXP now auth data s =
     (case auth of
        None \<Rightarrow> (Inl (HttpsError unauthenticated), s)
      | Some caller \<Rightarrow>
          if reqUserId data = [] \<or> reqReason data = []
          then (Inl (HttpsError invalid_argument), s)
          else if \<not> checkIsAdmin s caller
          then (Inl (catch_code (HttpsError permission_denied)), s)
          else
            (case users s (reqUserId data) of
               None \<Rightarrow> (Inl (catch_code (HttpsError not_found)), s)
             | Some userData \<Rightarrow>
                 let currentXP = js_or (xpPoints userData) (js_or (xp userData) 0);
                     new = max 0 (currentXP + reqXpAmount data);
                     newLvl = calculateXPLevel new;
                     entry = \<lparr>userId = reqUserId data, action = ''ADMIN_ADJUSTMENT'',
                              amount = reqXpAmount data, description = reqReason data,
                              spotId = None, previousXP = Some currentXP, newXP = Some new,
                              previousLevel = Some (js_or (level userData) 1),
                              newLevel = Some newLvl, leveledUp = None, timestamp = now,
                              txType = (case reqType data of None \<Rightarrow> ''ADJUSTMENT'' | Some t \<Rightarrow> t),
                              adminId = Some caller\<rparr>
                 in (Inr \<lparr>grantPreviousXP = currentXP, grantNewXP = new,
                          grantAmount = reqXpAmount data\<rparr>,
                     s\<lparr>users := (users s)(reqUserId data \<mapsto>
                           userData\<lparr>xpPoints := Some new, xp := Some new,
                                      level := Some newLvl\<rparr>),
                       xpTransactions := xpTransactions s @ [entry]\<rparr>)))"

text \<open>
  Replaying the ledger of a user from zero: the entries are in timestamp order, and each
  adds its signed amount, except an entry of type \<open>DENIAL\<close>, which records XP that was
  never granted.
\<close>

definition replayLedger :: "xp_transaction list \<Rightarrow> string \<Rightarrow> int" where
  "replayLedger txs uid =
     foldl (\<lambda>total t. total + amount t) 0
       (filter (\<lambda>t. userId t = uid \<and> txType t \<noteq> ''DENIAL'') txs)"


section \<open>QR redemption\<close>

text \<open>
  String matching.  \<open>idChar\<close> is the class \<open>[a-zA-Z0-9_-]\<close>; \<open>isSpace\<close> the ASCII white
  space that \<open>trim\<close> removes.  \<open>matchAfter pre s\<close> is the capture group of the unanchored
  pattern \<open>pre([a-zA-Z0-9_-]+)\<close>: the leftmost occurrence of \<open>pre\<close> that an id character
  follows, and the longest run of id characters there.  \<open>splitOn c s\<close> is \<open>s.split(c)\<close>.
\<close>

definition idChar :: "char \<Rightarrow> bool" where
  "idChar c = (let n = (of_char c :: nat) in
      (97 \<le> n \<and> n \<le> 122) \<or> (65 \<le> n \<and> n \<le> 90) \<or> (48 \<le> n \<and> n \<le> 57) \<or> n = 95 \<or> n = 45)"

definition isSpace :: "char \<Rightarrow> bool" where
  "isSpace c = (let n = (of_char c :: nat) in (9 \<le> n \<and> n \<le> 13) \<or> n = 32)"

definition trim :: "string \<Rightarrow> string" where
  "trim s = rev (dropWhile isSpace (rev (dropWhile isSpace s)))"

fun matchAfter :: "string \<Rightarrow> string \<Rightarrow> string option" where
  "matchAfter pre [] = None"
| "matchAfter pre (c # cs) =
     (if startsWith (c # cs) pre \<and> takeWhile idChar (drop (length pre) (c # cs)) \<noteq> []
      then Some (takeWhile idChar (drop (length pre) (c # cs)))
      else matchAfter pre cs)"

fun splitOn :: "char \<Rightarrow> string \<Rightarrow> string list" where
  "splitOn c [] = [[]]"
| "splitOn c (x # xs) =
     (if x = c then [] # splitOn c xs
      else (case splitOn c xs of [] \<Rightarrow> [[x]] | p # ps \<Rightarrow> (x # p) # ps))"

text \<open>
  The reward id of a scanned code, as \<open>redeemByQR\<close> extracts it: the deep link, then the
  legacy \<open>REWARD_{id}_...\<close> form, then a plain id of at least ten id characters.  An empty
  second part of the legacy form is falsy and falls through to the third format.
\<close>

definition extractRewardId :: "string \<Rightarrow> string option" where
  "extractRewardId code =
     (let deepLink = matchAfter ''mysteriSpots://reward/'' code;
          legacy =
            (case deepLink of
               Some r \<Rightarrow> Some r
             | None \<Rightarrow>
                 if startsWith code ''REWARD_''
                 then (case splitOn CHR ''_'' code of _ # p # _ \<Rightarrow> Some p | _ \<Rightarrow> None)
                 else None)
      in case legacy of
           Some (c # cs) \<Rightarrow> Some (c # cs)
         | _ \<Rightarrow> if 10 \<le> length code \<and> list_all idChar code then Some code else None)"

record redeem_result =
  redeemedId :: string
  redeemedTitle :: string
  xpDeducted :: int
  redeemedNewXP :: int
  redeemedNewLevel :: int

text \<open>
  The path of a redemption document, and \<open>transaction.set\<close> on it: the document replaces
  one of the same path and takes its place in path order.
\<close>

definition redemptionPath :: "redemption \<Rightarrow> string \<times> string" where
  "redemptionPath d = (redemptionUserId d, redemptionId d)"

definition setRedemption :: "redemption \<Rightarrow> redemption list \<Rightarrow> redemption list" where
  "setRedemption d ds =
     insort_key redemptionPath d (filter (\<lambda>x. redemptionPath x \<noteq> redemptionPath d) ds)"

definition updateReward :: "string \<Rightarrow> (reward \<Rightarrow> reward) \<Rightarrow> (string \<times> reward) list \<Rightarrow> (string \<times> reward) list" where
  "updateReward rid f rs = map (\<lambda>(k, r). if k = rid then (k, f r) else (k, r)) rs"

text \<open>
  The \<open>try\<close> block of the callable \<open>redeemByQR\<close>.  \<open>auth\<close> is the caller's uid when
  authenticated, \<open>code\<close> the scanned text, \<open>newId\<close> the id that Firestore generates for the
  new redemption document and \<open>now\<close> the time.  The checks run in the order of the
  source; the writes are those of its transaction, followed by the notification.
\<close>

definition redeemByQR_try ::
  "int \<Rightarrow> string \<Rightarrow> string option \<Rightarrow> string \<Rightarrow> store \<Rightarrow> (js_error + redeem_result) \<times> store" where
  "redeemByQR_try now newId auth code s =
     (case auth of
        None \<Rightarrow> (Inl (HttpsError unauthenticated), s)
      | Some uid \<Rightarrow>
          if trim code = [] then (Inl (HttpsError invalid_argument), s)
          else
            (case extractRewardId code of
               None \<Rightarrow> (Inl (HttpsError invalid_argument), s)
             | Some rid \<Rightarrow>
                 (case map_of (rewards s) rid of
                    None \<Rightarrow> (Inl (HttpsError not_found), s)
                  | Some rw \<Rightarrow>
                      if \<not> active rw then (Inl (HttpsError failed_precondition), s)
                      else if js_or (expiresAt rw) 0 \<noteq> 0 \<and> js_or (expiresAt rw) 0 < now
                        then (Inl (HttpsError failed_precondition), s)
                      else if js_or (maxRedemptions rw) 0 \<noteq> 0 \<and>
                              (case currentRedemptions rw of
                                 None \<Rightarrow> False
                               | Some n \<Rightarrow> n \<ge> js_or (maxRedemptions rw) 0)
                        then (Inl (HttpsError failed_precondition), s)
                      else if filter (\<lambda>d. redemptionUserId d = uid \<and> rewardId d = rid \<and> \<not> used d)
                                (redemptions s) \<noteq> []
                        then (Inl (HttpsError already_exists), s)
                      else
                        (case users s uid of
                           None \<Rightarrow> (Inl (HttpsError not_found), s)
                         | Some userData \<Rightarrow>
                             let currentXP = js_or (xp userData) 0;
                                 xpCost = js_or (xpRequired rw) 0
                             in if currentXP < xpCost
                                then (Inl (HttpsError failed_precondition), s)
                                else
                                  let new = currentXP - xpCost;
                                      newLvl = calculateLevel_qr new;
                                      redemptionData =
                                        \<lparr>redemptionId = newId, redemptionUserId = uid,
                                         rewardId = rid, redemptionTitle = rewardTitle rw,
                                         sponsorId = rewardSponsorId rw, xpUsed = xpCost,
                                         redeemedAt = now, used = False, usedAt = None,
                                         validatedBy = None, qrToken = code,
                                         redemptionQRCode = ''mysteriSpots://redemption/'' @ newId\<rparr>
                                  in (Inr \<lparr>redeemedId = newId, redeemedTitle = rewardTitle rw,
                                           xpDeducted = xpCost, redeemedNewXP = new,
                                           redeemedNewLevel = newLvl\<rparr>,
                                      s\<lparr>redemptions := setRedemption redemptionData (redemptions s),
                                        users := (users s)(uid \<mapsto>
                                          userData\<lparr>xp := Some new, level := Some newLvl\<rparr>),
                                        rewards := updateReward rid
                                          (\<lambda>r. r\<lparr>currentRedemptions :=
                                             Some ((case currentRedemptions r of None \<Rightarrow> 0 | Some n \<Rightarrow> n) + 1)\<rparr>)
                                          (rewards s),
                                        notifications := notifications s @
                                          [\<lparr>notifiedUser = uid, notificationType = ''reward_redeemed'',
                                            notifiedRedemption = newId\<rparr>]\<rparr>)))))"

text \<open>The callable \<open>redeemByQR\<close>: the \<open>try\<close> block under its catch clause.\<close>

definition redeemByQR ::
  "int \<Rightarrow> string \<Rightarrow> string option \<Rightarrow> string \<Rightarrow> store \<Rightarrow> (js_error + redeem_result) \<times> store" where
  "redeemByQR now newId auth code s =
     (case redeemByQR_try now newId auth code s of
        (Inl e, s') \<Rightarrow> (Inl (catch_functions_prefix e), s')
      | (Inr r, s') \<Rightarrow> (Inr r, s'))"

text \<open>
  The callable \<open>validateQRCode\<close>: it reads only the \<open>rewards\<close> collection, looking for a
  reward whose \<open>qrCode\<close> field equals the scanned text.  \<open>None\<close> is the answer
  \<open>{valid: false}\<close>.
\<close>

definition validateQRCode_try ::
  "string option \<Rightarrow> string \<Rightarrow> store \<Rightarrow> js_error + (string \<times> reward) option" where
  "validateQRCode_try auth code s =
     (if auth = None then Inl (HttpsError unauthenticated)
      else if code = [] then Inl (HttpsError invalid_argument)
      else Inr (find (\<lambda>(k, r). qrCode r = Some code) (rewards s)))"

definition validateQRCode ::
  "string option \<Rightarrow> string \<Rightarrow> store \<Rightarrow> js_error + (string \<times> reward) option" where
  "validateQRCode auth code s =
     (case validateQRCode_try auth code s of
        Inl e \<Rightarrow> Inl (catch_functions_prefix e)
      | Inr r \<Rightarrow> Inr r)"

text \<open>
  The redemption id of a presented code, as \<open>validateRedemption\<close> extracts it: the deep
  link, or the second of exactly two parts separated by a slash.
\<close>

definition extractRedemptionId :: "string \<Rightarrow> string option" where
  "extractRedemptionId code =
     (case matchAfter ''mysteriSpots://redemption/'' code of
        Some r \<Rightarrow> Some r
      | None \<Rightarrow>
          if CHR ''/'' \<in> set code
          then (case splitOn CHR ''/'' code of [_, c # cs] \<Rightarrow> Some (c # cs) | _ \<Rightarrow> None)
          else None)"

text \<open>
  The callable \<open>validateRedemption\<close> reads, then writes, without a transaction.  Its reads
  and checks: the id, the first 100 documents of the collection group
  (\<^verbatim>\<open>db.collectionGroup('redemptions').limit(100).get()\<close>) searched for the id, the
  sponsor document, the caller's ownership, and the \<open>used\<close> flag of the document read.
  They yield the document that was read.
\<close>

definition validateRedemption_check ::
  "string option \<Rightarrow> string \<Rightarrow> store \<Rightarrow> js_error + redemption" where
  "validateRedemption_check auth code s =
     (case auth of
        None \<Rightarrow> Inl (HttpsError unauthenticated)
      | Some caller \<Rightarrow>
          if trim code = [] then Inl (HttpsError invalid_argument)
          else
            (case extractRedemptionId code of
               None \<Rightarrow> Inl (HttpsError invalid_argument)
             | Some rid \<Rightarrow>
                 (case find (\<lambda>d. redemptionId d = rid) (take 100 (redemptions s)) of
                    None \<Rightarrow> Inl (HttpsError not_found)
                  | Some d \<Rightarrow>
                      (case sponsors s (sponsorId d) of
                         None \<Rightarrow> Inl (HttpsError not_found)
                       | Some sponsorData \<Rightarrow>
                           let owner =
                             (case ownerUserId sponsorData of
                                Some (c # cs) \<Rightarrow> Some (c # cs)
                              | _ \<Rightarrow> sponsorUserId sponsorData)
                           in if owner \<noteq> Some caller then Inl (HttpsError permission_denied)
                              else if used d then Inl (HttpsError already_exists)
                              else Inr d))))"

text \<open>
  Its writes: the update of the document at the path of the one read, to
  \<open>used: true\<close>, \<open>usedAt\<close>, \<open>validatedBy\<close>, whatever the document holds by then (an update
  of a missing document fails), and the notification of the user.
\<close>

definition validateRedemption_commit ::
  "int \<Rightarrow> string \<Rightarrow> redemption \<Rightarrow> store \<Rightarrow> (js_error + unit) \<times> store" where
  "validateRedemption_commit now caller d s =
     (if redemptionPath d \<notin> redemptionPath ` set (redemptions s) then (Inl FirestoreError, s)
      else
        (Inr (),
         s\<lparr>redemptions :=
              map (\<lambda>x. if redemptionPath x = redemptionPath d
                        then x\<lparr>used := True, usedAt := Some now, validatedBy := Some caller\<rparr>
                        else x) (redemptions s),
           notifications := notifications s @
             [\<lparr>notifiedUser = redemptionUserId d, notificationType = ''redemption_used'',
               notifiedRedemption = redemptionId d\<rparr>]\<rparr>))"

text \<open>One call of \<open>validateRedemption\<close> running alone: the reads, then the writes.\<close>

definition validateRedemption ::
  "int \<Rightarrow> string option \<Rightarrow> string \<Rightarrow> store \<Rightarrow> (js_error + redemption) \<times> store" where
  "validateRedemption now auth code s =
     (case validateRedemption_check auth code s of
        Inl e \<Rightarrow> (Inl (catch_functions_prefix e), s)
      | Inr d \<Rightarrow>
          (case validateRedemption_commit now (case auth of Some caller \<Rightarrow> caller | None \<Rightarrow> []) d s of
             (Inl e, s') \<Rightarrow> (Inl (catch_functions_prefix e), s')
           | (Inr _, s') \<Rightarrow> (Inr d, s')))"

text \<open>
  Sponsor QR codes.  A template literal \<^verbatim>\<open>`${n}`\<close> prints an integer in decimal, with a
  minus sign when it is negative.
\<close>

function showNat :: "nat \<Rightarrow> string" where
  "showNat n = (if n < 10 then [char_of (48 + n)]
                else showNat (n div 10) @ [char_of (48 + n mod 10)])"
  by pat_completeness auto
termination
  by (relation "measure id") auto

declare showNat.simps [simp del]

definition showInt :: "int \<Rightarrow> string" where
  "showInt i = (if i < 0 then CHR ''-'' # showNat (nat (- i)) else showNat (nat i))"

text \<open>
  \<^verbatim>\<open>crypto.createHmac('sha256', key).update(data).digest('hex')\<close>: the digest is the
  library's and is kept symbolic, a value that determines and is determined by its key
  and its text (two digests are equal only when both are; SHA-256 collisions are left out).
\<close>

datatype hmac_digest = HmacSha256 (hmacKey: string) (hmacData: string)

text \<open>
  The signed text of a sponsor code:
  \<^verbatim>\<open>`${payload.v}|${payload.sid}|${payload.ts}|${payload.nonce}`\<close>.
\<close>

definition dataToSign :: "int \<Rightarrow> string \<Rightarrow> int \<Rightarrow> string \<Rightarrow> string" where
  "dataToSign v sid ts nonce = showInt v @ ''|'' @ sid @ ''|'' @ showInt ts @ ''|'' @ nonce"

text \<open>
  \<open>fullPayload\<close>, the object \<open>{v, sid, ts, nonce, sig}\<close> that a sponsor code encodes (the
  base64 text of its JSON is the library's and is identified with the object), and the
  answer \<open>{success: true, qrData, expiresIn, generatedAt}\<close> of a generation.
\<close>

record qr_code =
  payloadV :: int
  payloadSid :: string
  payloadTs :: int
  payloadNonce :: string
  payloadSig :: hmac_digest

record qr_result =
  qrData :: qr_code
  expiresIn :: int
  generatedAt :: int

text \<open>
  \<open>generateQRDataForSponsor\<close> creates the secret when the sponsor has none (with version 1
  and an expiry of 5 minutes), builds the payload \<open>{v, sid, ts, nonce}\<close> with
  \<^verbatim>\<open>v: sponsor.qrVersion || 1\<close> and signs the text above with an HMAC keyed by the
  secret.  The random secret and nonce are inputs.  \<open>None\<close> is the answer
  \<open>{success: false}\<close>.
\<close>

definition generateQRDataForSponsor ::
  "int \<Rightarrow> string \<Rightarrow> string \<Rightarrow> string \<Rightarrow> store \<Rightarrow> qr_result option \<times> store" where
  "generateQRDataForSponsor now newSecret nonce sid s =
     (case sponsors s sid of
        None \<Rightarrow> (None, s)
      | Some sp0 \<Rightarrow>
          let sp =
                (if qrSecret sp0 \<in> {None, Some []}
                 then sp0\<lparr>qrSecret := Some newSecret, qrVersion := Some 1,
                          qrExpiryMinutes := Some 5\<rparr>
                 else sp0);
              v = js_or (qrVersion sp) 1;
              signature =
                HmacSha256 (case qrSecret sp of Some k \<Rightarrow> k | None \<Rightarrow> [])
                  (dataToSign v sid now nonce)
          in (Some \<lparr>qrData = \<lparr>payloadV = v, payloadSid = sid, payloadTs = now,
                              payloadNonce = nonce, payloadSig = signature\<rparr>,
                     expiresIn = js_or (qrExpiryMinutes sp) 5 * 60,
                     generatedAt = now\<rparr>,
              s\<lparr>sponsors := (sponsors s)(sid \<mapsto> sp\<lparr>lastQrNonce := Some nonce\<rparr>)\<rparr>))"

text \<open>
  The callable \<open>regenerateSponsorQR\<close>: \<open>qrVersion: FieldValue.increment(1)\<close> on the caller's
  sponsor document (a failure of the update is caught and answered by
  \<open>{success: false}\<close>; on a document without the field the increment writes 1), then a
  new code.
\<close>

definition regenerateSponsorQR ::
  "int \<Rightarrow> string \<Rightarrow> string \<Rightarrow> string option \<Rightarrow> store \<Rightarrow> (js_error + qr_result option) \<times> store" where
  "regenerateSponsorQR now newSecret nonce auth s =
     (case auth of
        None \<Rightarrow> (Inl (HttpsError unauthenticated), s)
      | Some sid \<Rightarrow>
          (case sponsors s sid of
             None \<Rightarrow> (Inr None, s)
           | Some sp \<Rightarrow>
               let s1 = s\<lparr>sponsors := (sponsors s)(sid \<mapsto>
                          sp\<lparr>qrVersion := Some ((case qrVersion sp of None \<Rightarrow> 0 | Some v \<Rightarrow> v) + 1)\<rparr>)\<rparr>;
                   (r, s2) = generateQRDataForSponsor now newSecret nonce sid s1
               in (Inr r, s2)))"





section \<open>The verification scoring engine\<close>

text \<open>\<open>VERIFICATION_CONFIG\<close>: the thresholds, the weights and the location parameters.\<close>

definition AUTO_APPROVE_THRESHOLD :: int where "AUTO_APPROVE_THRESHOLD = 80"
definition MANUAL_REVIEW_THRESHOLD :: int where "MANUAL_REVIEW_THRESHOLD = 50"
definition WEIGHT_LOCATION_ACCURACY :: int where "WEIGHT_LOCATION_ACCURACY = 30"
definition WEIGHT_PHOTO_VERIFICATION :: int where "WEIGHT_PHOTO_VERIFICATION = 20"
definition WEIGHT_DUPLICATE_DETECTION :: int where "WEIGHT_DUPLICATE_DETECTION = 20"
definition WEIGHT_USER_TRUST :: int where "WEIGHT_USER_TRUST = 20"
definition WEIGHT_CONTENT_QUALITY :: int where "WEIGHT_CONTENT_QUALITY = 10"
definition EXCELLENT_ACCURACY :: real where "EXCELLENT_ACCURACY = 20"
definition GOOD_ACCURACY :: real where "GOOD_ACCURACY = 50"
definition POOR_ACCURACY :: real where "POOR_ACCURACY = 100"
definition MAX_SPEED_MPS :: real where "MAX_SPEED_MPS = 50"
definition TELEPORT_DISTANCE :: real where "TELEPORT_DISTANCE = 10000"
definition MAX_SUBMISSIONS_PER_DAY :: nat where "MAX_SUBMISSIONS_PER_DAY = 3"
definition NEW_USER_GRACE_PERIOD :: int where "NEW_USER_GRACE_PERIOD = 7 * 24 * 60 * 60 * 1000"
definition SHADOW_BAN_REJECTION_THRESHOLD :: real where "SHADOW_BAN_REJECTION_THRESHOLD = 7 / 10"

text \<open>\<open>Math.atan2(y, x)\<close> and the haversine distance \<open>getDistance\<close>, in metres.\<close>

definition atan2 :: "real \<Rightarrow> real \<Rightarrow> real" where
  "atan2 y x =
     (if x > 0 then arctan (y / x)
      else if x < 0 \<and> y \<ge> 0 then arctan (y / x) + pi
      else if x < 0 then arctan (y / x) - pi
      else if y > 0 then pi / 2
      else if y < 0 then - pi / 2
      else 0)"

definition getDistance :: "real \<Rightarrow> real \<Rightarrow> real \<Rightarrow> real \<Rightarrow> real" where
  "getDistance lat1 lon1 lat2 lon2 =
     (let R = 6371000;
          phi1 = lat1 * pi / 180;
          phi2 = lat2 * pi / 180;
          dphi = (lat2 - lat1) * pi / 180;
          dlambda = (lon2 - lon1) * pi / 180;
          a = sin (dphi / 2) * sin (dphi / 2) +
              cos phi1 * cos phi2 * sin (dlambda / 2) * sin (dlambda / 2);
          c = 2 * atan2 (sqrt a) (sqrt (1 - a))
      in R * c)"

text \<open>
  \<open>levenshteinDistance(str1, str2)\<close> fills a matrix with a row for each character of
  \<open>str2\<close> and a column for each character of \<open>str1\<close>.  \<open>levRow c str1 prev left\<close> is
  a row from its second cell on: \<open>c\<close> is the character of \<open>str2\<close>, \<open>prev\<close> the row above
  from the cell diagonally behind, \<open>left\<close> the cell just computed.
\<close>

fun levRow :: "char \<Rightarrow> string \<Rightarrow> nat list \<Rightarrow> nat \<Rightarrow> nat list" where
  "levRow c (x # xs) (d # u # prev) left =
     (let v = (if c = x then d else min (d + 1) (min (left + 1) (u + 1)))
      in v # levRow c xs (u # prev) v)"
| "levRow c xs prev left = []"

definition levenshteinDistance :: "string \<Rightarrow> string \<Rightarrow> nat" where
  "levenshteinDistance str1 str2 =
     last (foldl (\<lambda>prev (i, c). i # levRow c str1 prev i)
                 [0..<Suc (length str1)] (enumerate 1 str2))"

text \<open>\<open>calculateTextSimilarity(str1, str2)\<close>.\<close>

definition calculateTextSimilarity :: "string \<Rightarrow> string \<Rightarrow> real" where
  "calculateTextSimilarity str1 str2 =
     (if str1 = str2 then 1
      else if length str1 = 0 \<or> length str2 = 0 then 0
      else
        let longer = (if length str1 > length str2 then str1 else str2);
            shorter = (if length str1 > length str2 then str2 else str1);
            editDistance = levenshteinDistance longer shorter
        in (real (length longer) - real editDistance) / real (length longer))"

text \<open>\<open>toLowerCase\<close> on ASCII text.\<close>

definition toLowerCase :: "string \<Rightarrow> string" where
  "toLowerCase s =
     map (\<lambda>c. let n = (of_char c :: nat) in if 65 \<le> n \<and> n \<le> 90 then char_of (n + 32) else c) s"

text \<open>
  What each of the five checks returns.  The reads of a check from the store are its
  arguments: the snapshot of the query, or the error with which the read failed.
\<close>

record check_result =
  score :: int
  reasons :: "string list"
  flags :: "string list"

text \<open>\<open>analyzeMovementPattern(submissions, newSpot)\<close>: whether the movement is suspicious.\<close>

definition analyzeMovementPattern :: "spot list \<Rightarrow> spot \<Rightarrow> bool" where
  "analyzeMovementPattern submissions newSpot =
     (case submissions of
        [] \<Rightarrow> False
      | lastSubmission # _ \<Rightarrow>
          let timeDiff = createdAt newSpot - createdAt lastSubmission
          in if timeDiff < 60000 then True
             else
               let distance = getDistance (latitude lastSubmission) (longitude lastSubmission)
                                (latitude newSpot) (longitude newSpot)
               in if distance > TELEPORT_DISTANCE \<and> timeDiff < 300000 then True
                  else
                    let speedMPS = distance / (real_of_int timeDiff / 1000)
                    in speedMPS > MAX_SPEED_MPS)"

text \<open>
  \<open>checkLocationAccuracy(db, spotData)\<close>.  \<open>recent\<close> is the result of the query for the
  submitter's spots of the last 24 hours, latest first, at most five.
\<close>

definition checkLocationAccuracy :: "js_error + spot list \<Rightarrow> spot \<Rightarrow> check_result" where
  "checkLocationAccuracy recent spotData =
     (case recent of
        Inl e \<Rightarrow> \<lparr>score = max 0 (min 100 50), reasons = [''location_check_error''], flags = []\<rparr>
      | Inr submissions \<Rightarrow>
          let r1 =
                (if submissions \<noteq> [] then
                   (if analyzeMovementPattern submissions spotData
                    then \<lparr>score = 0, reasons = [''unrealistic_movement_detected''],
                          flags = [''suspicious_movement'']\<rparr>
                    else \<lparr>score = 80, reasons = [''movement_pattern_ok''], flags = []\<rparr>)
                 else \<lparr>score = 60, reasons = [''first_submission''], flags = []\<rparr>);
              r2 =
                (if (case locationMeta spotData of
                       None \<Rightarrow> False | Some m \<Rightarrow> isMockLocation m = Some True)
                 then \<lparr>score = min (score r1) 10,
                       reasons = reasons r1 @ [''mock_location_detected''],
                       flags = flags r1 @ [''mock_location_detected'']\<rparr>
                 else r1);
              acc = js_or (case locationMeta spotData of None \<Rightarrow> None | Some m \<Rightarrow> accuracy m) 999;
              r3 =
                (if acc \<le> EXCELLENT_ACCURACY
                 then r2\<lparr>score := min 100 (score r2 + 20),
                         reasons := reasons r2 @ [''excellent_gps_accuracy'']\<rparr>
                 else if acc \<le> GOOD_ACCURACY
                 then r2\<lparr>score := min 100 (score r2 + 10),
                         reasons := reasons r2 @ [''good_gps_accuracy'']\<rparr>
                 else if acc > POOR_ACCURACY
                 then r2\<lparr>score := max 0 (score r2 - 20),
                         reasons := reasons r2 @ [''poor_gps_accuracy'']\<rparr>
                 else r2)
          in r3\<lparr>score := max 0 (min 100 (score r3))\<rparr>)"

text \<open>
  \<open>checkPhotoVerification(db, spotData)\<close>.  \<open>duplicateImages\<close> is the result of the query
  for another spot with the same photo hash, which runs when the spot has a hash.
\<close>

definition checkPhotoVerification :: "js_error + spot list \<Rightarrow> spot \<Rightarrow> check_result" where
  "checkPhotoVerification duplicateImages spotData =
     (if primaryImageUrl spotData \<in> {None, Some []} \<and> imageUrls spotData \<in> {None, Some []}
      then \<lparr>score = 20, reasons = [''no_photo_provided''], flags = []\<rparr>
      else
        let imageHash = (case photoMeta spotData of None \<Rightarrow> None | Some m \<Rightarrow> hash m);
            hashed = (imageHash \<notin> {None, Some []})
        in if hashed \<and> isl duplicateImages
           then \<lparr>score = max 0 (min 100 40),
                 reasons = [''photo_provided'', ''photo_check_error''], flags = []\<rparr>
           else if hashed \<and> duplicateImages \<noteq> Inr []
           then \<lparr>score = 0, reasons = [''photo_provided'', ''duplicate_image_detected''],
                 flags = [''duplicate_image'']\<rparr>
           else
             let r1 = (if hashed
                       then \<lparr>score = 60 + 20, reasons = [''photo_provided'', ''unique_image''],
                             flags = []\<rparr>
                       else \<lparr>score = 60, reasons = [''photo_provided''], flags = []\<rparr>);
                 r3 =
                   (case (case photoMeta spotData of None \<Rightarrow> None | Some m \<Rightarrow> exifData m) of
                      None \<Rightarrow> r1
                    | Some ex \<Rightarrow>
                        let photoTime = js_or (dateTimeOriginal ex) 0;
                            r2 = (if photoTime \<noteq> 0 \<and> \<bar>photoTime - createdAt spotData\<bar> < 3600000
                                  then r1\<lparr>score := score r1 + 10,
                                          reasons := reasons r1 @ [''recent_photo'']\<rparr>
                                  else r1)
                        in if js_or (gpsLatitude ex) 0 \<noteq> 0 \<and> js_or (gpsLongitude ex) 0 \<noteq> 0
                           then
                             (if getDistance (js_or (gpsLatitude ex) 0) (js_or (gpsLongitude ex) 0)
                                   (latitude spotData) (longitude spotData) < 100
                              then r2\<lparr>score := score r2 + 10,
                                      reasons := reasons r2 @ [''exif_location_match'']\<rparr>
                              else r2\<lparr>score := score r2 - 10,
                                      reasons := reasons r2 @ [''exif_location_mismatch'']\<rparr>)
                           else r2)
             in r3\<lparr>score := max 0 (min 100 (score r3))\<rparr>)"

text \<open>
  The loop of \<open>checkDuplicateSpots\<close> over the nearby spots.  It ends by exhausting the
  documents, by the \<open>break\<close> at a spot within 50 m with a similar title, or by the
  \<open>TypeError\<close> of \<open>title.toLowerCase()\<close> when one of the two titles is absent.
\<close>

datatype loop_end =
    Done int "string list" nat
  | Broke "string list" nat
  | Thrown "string list"

fun duplicateLoop :: "spot \<Rightarrow> spot list \<Rightarrow> int \<Rightarrow> string list \<Rightarrow> nat \<Rightarrow> loop_end" where
  "duplicateLoop spotData [] sc rs found = Done sc rs found"
| "duplicateLoop spotData (existingSpot # docs) sc rs found =
     (if spot_id existingSpot = spot_id spotData then duplicateLoop spotData docs sc rs found
      else
        let distance = getDistance (latitude existingSpot) (longitude existingSpot)
                         (latitude spotData) (longitude spotData)
        in if distance < 50 then
             (case (title spotData, title existingSpot) of
                (Some t1, Some t2) \<Rightarrow>
                  if calculateTextSimilarity (toLowerCase t1) (toLowerCase t2) > 8 / 10
                  then Broke (rs @ [''duplicate_spot_detected'']) (found + 1)
                  else if distance < 25
                  then duplicateLoop spotData docs (sc - 30) (rs @ [''very_close_spot_exists''])
                         (found + 1)
                  else duplicateLoop spotData docs sc rs (found + 1)
              | _ \<Rightarrow> Thrown rs)
           else if distance < 100
           then duplicateLoop spotData docs (sc - 10) (rs @ [''nearby_spot_exists'']) found
           else duplicateLoop spotData docs sc rs found)"

text \<open>
  \<open>checkDuplicateSpots(db, spotData)\<close>.  \<open>nearbySpots\<close> is the result of the bounding-box
  query.
\<close>

definition checkDuplicateSpots :: "js_error + spot list \<Rightarrow> spot \<Rightarrow> check_result" where
  "checkDuplicateSpots nearbySpots spotData =
     (case nearbySpots of
        Inl e \<Rightarrow> \<lparr>score = max 0 (min 100 60), reasons = [''duplicate_check_error''], flags = []\<rparr>
      | Inr docs \<Rightarrow>
          (case duplicateLoop spotData docs 80 [] 0 of
             Thrown rs \<Rightarrow>
               \<lparr>score = max 0 (min 100 60), reasons = rs @ [''duplicate_check_error''], flags = []\<rparr>
           | Broke rs found \<Rightarrow>
               \<lparr>score = max 0 (min 100 0),
                reasons = (if found = 0 then rs @ [''no_nearby_duplicates''] else rs),
                flags = [''potential_duplicate'']\<rparr>
           | Done sc rs found \<Rightarrow>
               \<lparr>score = max 0 (min 100 sc),
                reasons = (if found = 0 then rs @ [''no_nearby_duplicates''] else rs),
                flags = []\<rparr>))"

text \<open>
  \<open>checkUserTrust(db, userId)\<close>.  \<open>userDoc\<close> is the read of the user document (\<open>None\<close>
  when it does not exist), \<open>todaySubmissions\<close> the size of the query for the user's spots
  of today, \<open>now\<close> the time.
\<close>

definition checkUserTrust ::
  "int \<Rightarrow> js_error + user option \<Rightarrow> js_error + nat \<Rightarrow> check_result" where
  "checkUserTrust now userDoc todaySubmissions =
     (case userDoc of
        Inl e \<Rightarrow> \<lparr>score = max 0 (min 100 40), reasons = [''trust_check_error''], flags = []\<rparr>
      | Inr None \<Rightarrow> \<lparr>score = 30, reasons = [''new_user_account''], flags = []\<rparr>
      | Inr (Some userData) \<Rightarrow>
          if isShadowBanned userData = Some True
          then \<lparr>score = 0, reasons = [''shadow_banned_user''], flags = [''shadow_banned_user'']\<rparr>
          else
            let trust = js_or (trustScore userData) 1;
                r0 = \<lparr>score = js_round (trust * 100), reasons = [], flags = []\<rparr>;
                r1 = (if (case userCreatedAt userData of
                            None \<Rightarrow> False | Some c \<Rightarrow> now - c > NEW_USER_GRACE_PERIOD)
                      then r0\<lparr>score := score r0 + 10,
                              reasons := reasons r0 @ [''established_account'']\<rparr>
                      else r0);
                totalSubmissions = js_or (spotSubmissions userData) 0;
                approvedCount = js_or (spotApprovedCount userData) 0;
                approvalRate = real_of_int approvedCount / real_of_int totalSubmissions;
                r2 = (if totalSubmissions > 0 then
                        (if approvalRate > 8 / 10
                         then r1\<lparr>score := score r1 + 15,
                                 reasons := reasons r1 @ [''high_approval_rate'']\<rparr>
                         else if approvalRate < 3 / 10
                         then r1\<lparr>score := score r1 - 20,
                                 reasons := reasons r1 @ [''low_approval_rate''],
                                 flags :=
                                   (if approvalRate < SHADOW_BAN_REJECTION_THRESHOLD \<and>
                                       totalSubmissions \<ge> 5
                                    then flags r1 @ [''shadow_ban_candidate''] else flags r1)\<rparr>
                         else r1)
                      else r1)
            in (case todaySubmissions of
                  Inl e \<Rightarrow> r2\<lparr>score := max 0 (min 100 40),
                               reasons := reasons r2 @ [''trust_check_error'']\<rparr>
                | Inr n \<Rightarrow>
                    let r3 = (if n \<ge> MAX_SUBMISSIONS_PER_DAY
                              then r2\<lparr>score := min (score r2) 20,
                                      reasons := reasons r2 @ [''too_many_submissions_today''],
                                      flags := flags r2 @ [''rate_limit_exceeded'']\<rparr>
                              else r2)
                    in r3\<lparr>score := max 0 (min 100 (score r3))\<rparr>))"

text \<open>
  The spam patterns of \<open>checkContentQuality\<close>: \<open>/(.)\1{5,}/\<close>, a character other than a
  line terminator six times in a row; \<open>/[0-9]{10,}/\<close>, ten digits in a row; the URL
  fragments; the commercial terms.
\<close>

fun repeatedCharacters :: "string \<Rightarrow> bool" where
  "repeatedCharacters [] = False"
| "repeatedCharacters (c # cs) =
     ((of_char c \<notin> {10 :: nat, 13} \<and> 5 \<le> length cs \<and> take 5 cs = replicate 5 c)
      \<or> repeatedCharacters cs)"

definition isDigit :: "char \<Rightarrow> bool" where
  "isDigit c = (let n = (of_char c :: nat) in 48 \<le> n \<and> n \<le> 57)"

fun longNumber :: "string \<Rightarrow> bool" where
  "longNumber [] = False"
| "longNumber (c # cs) = (10 \<le> length (takeWhile isDigit (c # cs)) \<or> longNumber cs)"

definition spamDetected :: "string \<Rightarrow> bool" where
  "spamDetected titleLower =
     (repeatedCharacters titleLower
      \<or> longNumber titleLower
      \<or> (\<exists>p \<in> set [''www.'', ''http'', ''.com'']. includes_str titleLower p)
      \<or> (\<exists>p \<in> set [''buy'', ''sale'', ''cheap'', ''free'', ''win'', ''prize''].
            includes_str titleLower p))"

text \<open>\<open>checkContentQuality(spotData)\<close>.\<close>

definition checkContentQuality :: "spot \<Rightarrow> check_result" where
  "checkContentQuality spotData =
     (let ttl = trim (case title spotData of None \<Rightarrow> [] | Some t \<Rightarrow> t);
          r1 = (if length ttl < 5 then \<lparr>score = 70 - 30, reasons = [''title_too_short''], flags = []\<rparr>
                else if length ttl > 100
                then \<lparr>score = 70 - 10, reasons = [''title_too_long''], flags = []\<rparr>
                else \<lparr>score = 70, reasons = [''title_length_ok''], flags = []\<rparr>);
          r2 = (if spamDetected (toLowerCase ttl)
                then r1\<lparr>score := score r1 - 20, reasons := reasons r1 @ [''spam_detected_in_title'']\<rparr>
                else r1);
          descr = trim (case spotDescription spotData of None \<Rightarrow> [] | Some d \<Rightarrow> d);
          r3 = (if length descr < 10
                then r2\<lparr>score := score r2 - 15, reasons := reasons r2 @ [''description_too_short'']\<rparr>
                else if length descr > 500
                then r2\<lparr>score := score r2 - 5, reasons := reasons r2 @ [''description_too_long'']\<rparr>
                else r2\<lparr>reasons := reasons r2 @ [''description_length_ok'']\<rparr>);
          fullText = toLowerCase (ttl @ '' '' @ descr);
          r4 = (if \<exists>w \<in> set [''spam'', ''test'', ''fake'']. includes_str fullText w
                then r3\<lparr>score := score r3 - 15, reasons := reasons r3 @ [''inappropriate_content'']\<rparr>
                else r3);
          r5 = (if category spotData \<notin>
                     set [''CAFE'', ''VIEWPOINT'', ''ART'', ''PARK'', ''HISTORICAL'', ''HIDDEN_GEM'']
                then r4\<lparr>score := score r4 - 10, reasons := reasons r4 @ [''invalid_category'']\<rparr>
                else r4)
      in r5\<lparr>score := max 0 (min 100 (score r5))\<rparr>)"

text \<open>
  \<open>performSpotVerification(db, spotId, spotData)\<close>, with the reads of the four checks that
  query the store.
\<close>

record db_reads =
  recentSubmissions :: "js_error + spot list"
  duplicateImages :: "js_error + spot list"
  nearbySpots :: "js_error + spot list"
  userDoc :: "js_error + user option"
  todaySubmissions :: "js_error + nat"

record scores =
  locationAccuracy :: int
  photoVerification :: int
  duplicateDetection :: int
  userTrust :: int
  contentQuality :: int

record verification_result = check_result +
  status :: string
  detailedScores :: scores

definition performSpotVerification :: "int \<Rightarrow> db_reads \<Rightarrow> spot \<Rightarrow> verification_result" where
  "performSpotVerification now db spotData =
     (let locationScore = checkLocationAccuracy (recentSubmissions db) spotData;
          photoScore = checkPhotoVerification (duplicateImages db) spotData;
          duplicateScore = checkDuplicateSpots (nearbySpots db) spotData;
          trustResult = checkUserTrust now (userDoc db) (todaySubmissions db);
          contentScore = checkContentQuality spotData;
          allReasons = reasons locationScore @ reasons photoScore @ reasons duplicateScore @
                       reasons trustResult @ reasons contentScore;
          allFlags = flags locationScore @ flags photoScore @ flags duplicateScore @
                     flags trustResult @ flags contentScore;
          totalScore = js_round
            (real_of_int
               (score locationScore * WEIGHT_LOCATION_ACCURACY +
                score photoScore * WEIGHT_PHOTO_VERIFICATION +
                score duplicateScore * WEIGHT_DUPLICATE_DETECTION +
                score trustResult * WEIGHT_USER_TRUST +
                score contentScore * WEIGHT_CONTENT_QUALITY) / 100);
          st = (if length allFlags > 0 then ''FLAGGED''
                else if totalScore \<ge> AUTO_APPROVE_THRESHOLD then ''AUTO_APPROVED''
                else if totalScore < MANUAL_REVIEW_THRESHOLD then ''PENDING''
                else ''PENDING'')
      in \<lparr>score = totalScore, reasons = filter (\<lambda>r. r \<noteq> []) allReasons, flags = allFlags,
          status = st,
          detailedScores =
            \<lparr>locationAccuracy = score locationScore, photoVerification = score photoScore,
             duplicateDetection = score duplicateScore, userTrust = score trustResult,
             contentQuality = score contentScore\<rparr>\<rparr>)"


section \<open>The trust ledger\<close>

text \<open>
  \<open>updateUserTrustScore(db, userId, verificationResult)\<close>: one transaction on the user
  document; nothing is written when the user does not exist.
\<close>

definition updateUserTrustScore :: "string \<Rightarrow> string \<Rightarrow> store \<Rightarrow> store" where
  "updateUserTrustScore uid resultStatus s =
     (case users s uid of
        None \<Rightarrow> s
      | Some userData \<Rightarrow>
          let currentTrust = js_or (trustScore userData) 1;
              submissions = js_or (spotSubmissions userData) 0;
              approved = js_or (spotApprovedCount userData) 0;
              rejected = js_or (spotRejectedCount userData) 0;
              newApproved = (if resultStatus = ''AUTO_APPROVED'' then approved + 1 else approved);
              newRejected = (if resultStatus = ''REJECTED'' then rejected + 1 else rejected);
              newTrust =
                (if resultStatus = ''AUTO_APPROVED'' then min 1 (currentTrust + 2 / 100)
                 else if resultStatus = ''REJECTED'' then max 0 (currentTrust - 5 / 100)
                 else currentTrust);
              updates = userData\<lparr>spotSubmissions := Some (submissions + 1),
                                  spotApprovedCount := Some newApproved,
                                  spotRejectedCount := Some newRejected,
                                  trustScore := Some newTrust\<rparr>;
              totalAfterUpdate = submissions + 1;
              updates' =
                (if totalAfterUpdate \<ge> 5 \<and>
                    real_of_int newRejected / real_of_int totalAfterUpdate
                      \<ge> SHADOW_BAN_REJECTION_THRESHOLD
                 then updates\<lparr>isShadowBanned := Some True\<rparr>
                 else updates)
          in s\<lparr>users := (users s)(uid \<mapsto> updates')\<rparr>)"

text \<open>
  The callable \<open>cleanupMigration\<close> of \<open>migration.js\<close>.  \<open>auth\<close> is \<open>None\<close> without a
  caller and otherwise tells whether the caller's token has the \<open>superadmin\<close> claim.  The
  file does not import \<open>HttpsError\<close>, so its \<open>throw new HttpsError(...)\<close> is a
  \<open>ReferenceError\<close>.  It deletes the verification fields of every spot and the trust
  fields of every user.
\<close>

definition cleanupMigration :: "bool option \<Rightarrow> store \<Rightarrow> (js_error + unit) \<times> store" where
  "cleanupMigration auth s =
     (if auth \<noteq> Some True then (Inl ReferenceError, s)
      else
        (Inr (),
         s\<lparr>spots := map (\<lambda>d. d\<lparr>verificationStatus := None, verificationScore := None,
                                 verificationReasons := None, verificationFlags := None,
                                 xpReleased := None, spotXpPending := None,
                                 reportCount := None\<rparr>) (spots s),
           users := (\<lambda>k. map_option
                      (\<lambda>u. u\<lparr>trustScore := None, spotSubmissions := None,
                              spotApprovedCount := None, spotRejectedCount := None,
                              isShadowBanned := None, xpPending := None\<rparr>) (users s k))\<rparr>))"


section \<open>Example states\<close>

text \<open>
  A user without any XP field yet, a reward of 50 XP limited to one redemption, its sponsor,
  and a store with one user who has 300 \<open>xpPoints\<close> and 120 \<open>xp\<close>.
\<close>

definition fresh_user :: user where
  "fresh_user = \<lparr>xpPoints = None, xp = None, level = None, xpPending = None,
     spotsDiscovered = None, challengesCompleted = None, trustScore = None,
     spotSubmissions = None, spotApprovedCount = None, spotRejectedCount = None,
     isShadowBanned = None, userCreatedAt = None, role = None\<rparr>"

definition demo_reward :: reward where
  "demo_reward = \<lparr>rewardTitle = ''Coffee'', rewardSponsorId = ''sponsor1'', sponsorName = None,
     active = True, expiresAt = None, maxRedemptions = Some 1, currentRedemptions = Some 0,
     xpRequired = Some 50, qrCode = Some ''QR-COFFEE''\<rparr>"

definition demo_sponsor :: sponsor where
  "demo_sponsor = \<lparr>ownerUserId = Some ''sponsor1'', sponsorUserId = None, qrSecret = Some ''k1'',
     qrVersion = Some 1, qrExpiryMinutes = Some 5, lastQrNonce = None\<rparr>"

definition demo_store :: store where
  "demo_store = \<lparr>users = [''user1'' \<mapsto> fresh_user\<lparr>xpPoints := Some 300, xp := Some 120\<rparr>],
     xpTransactions = [], rewards = [(''rewardCOFFEE1'', demo_reward)], redemptions = [],
     sponsors = [''sponsor1'' \<mapsto> demo_sponsor], adminUsers = Map.empty,
     notifications = [], spots = []\<rparr>"

definition demo_redemption :: redemption where
  "demo_redemption = \<lparr>redemptionId = ''red1'', redemptionUserId = ''user1'',
     rewardId = ''rewardCOFFEE1'', redemptionTitle = ''Coffee'', sponsorId = ''sponsor1'',
     xpUsed = 50, redeemedAt = 1000, used = False, usedAt = None, validatedBy = None,
     qrToken = ''rewardCOFFEE1'', redemptionQRCode = ''mysteriSpots://redemption/red1''\<rparr>"

definition redeemed_store :: store where
  "redeemed_store = demo_store\<lparr>
     users := [''user1'' \<mapsto> fresh_user\<lparr>xpPoints := Some 300, xp := Some 70, level := Some 1\<rparr>],
     rewards := [(''rewardCOFFEE1'', demo_reward\<lparr>currentRedemptions := Some 1\<rparr>)],
     redemptions := [demo_redemption],
     notifications := [\<lparr>notifiedUser = ''user1'', notificationType = ''reward_redeemed'',
        notifiedRedemption = ''red1''\<rparr>]\<rparr>"


text \<open>The same store with the reward's cap raised to five.\<close>

definition restocked_store :: store where
  "restocked_store = redeemed_store\<lparr>rewards :=
      [(''rewardCOFFEE1'', demo_reward\<lparr>maxRedemptions := Some 5, currentRedemptions := Some 1\<rparr>)]\<rparr>"

definition no_metadata :: metadata where
  "no_metadata = \<lparr>mdUserId = None, mdAction = None, mdAmount = None, mdDescription = None,
     mdSpotId = None, mdChallengeId = None, mdPreviousXP = None, mdNewXP = None,
     mdPreviousLevel = None, mdNewLevel = None, mdLeveledUp = None, mdTimestamp = None,
     mdType = None, mdAdminId = None\<rparr>"


text \<open>A metadata object that carries an \<open>amount\<close> key.\<close>

definition overriding_metadata :: metadata where
  "overriding_metadata = no_metadata\<lparr>mdAmount := Some 1000000\<rparr>"










text \<open>
  A store in which a hundred redemptions of other users precede the redemption of
  \<open>user1\<close> in path order.
\<close>

definition filler_redemption :: "nat \<Rightarrow> redemption" where
  "filler_redemption n = demo_redemption\<lparr>redemptionId := ''red0'',
      redemptionUserId := replicate (Suc n) CHR ''a''\<rparr>"

definition crowded_store :: store where
  "crowded_store = redeemed_store\<lparr>redemptions := map filler_redemption [0..<100] @ [demo_redemption]\<rparr>"


text \<open>The redemption of \<open>user1\<close> once a validation at time \<open>t\<close> has marked it, and the notification.\<close>

definition used_redemption :: "int \<Rightarrow> redemption" where
  "used_redemption t = demo_redemption\<lparr>used := True, usedAt := Some t, validatedBy := Some ''sponsor1''\<rparr>"

definition used_notification :: notification where
  "used_notification = \<lparr>notifiedUser = ''user1'', notificationType = ''redemption_used'',
      notifiedRedemption = ''red1''\<rparr>"


text \<open>A store whose only user has no XP yet, and a grant of 50 XP to that user.\<close>

definition new_user_store :: store where
  "new_user_store = demo_store\<lparr>users := [''user1'' \<mapsto> fresh_user]\<rparr>"

definition grant_request :: xp_request where
  "grant_request = \<lparr>reqUserId = ''user1'', reqXpAmount = 50, reqReason = ''bonus'', reqType = None\<rparr>"


text \<open>
  The ledger invariant of the specification: for every user, the replay of the ledger
  gives the user's \<open>xpPoints\<close>.
\<close>

definition ledgerConsistent :: "store \<Rightarrow> bool" where
  "ledgerConsistent s =
     (\<forall>uid u. users s uid = Some u \<longrightarrow> replayLedger (xpTransactions s) uid = js_or (xpPoints u) 0)"


text \<open>
  A spot with a photo, a hash and a GPS accuracy of 15 m, the same spot with a reported
  accuracy of 0, the same user's spot of 30 seconds before, and reads that find no other
  spot and a user of full trust.
\<close>

definition good_spot :: spot where
  "good_spot = \<lparr>spot_id = ''spot2'', createdBy = ''user1'', createdAt = 1030000,
     latitude = 48, longitude = 2, title = Some ''Blue Door Cafe'',
     spotDescription = Some ''Quiet corner with fresh pastry'', category = ''CAFE'',
     primaryImageUrl = Some ''https://img/1.jpg'', imageUrls = None,
     locationMeta = Some \<lparr>isMockLocation = None, accuracy = Some 15\<rparr>,
     photoMeta = Some \<lparr>hash = Some ''h1'', exifData = None\<rparr>,
     verificationStatus = Some ''PENDING'', verificationScore = None,
     verificationReasons = None, verificationFlags = None, xpReleased = None,
     spotXpPending = None, reportCount = None\<rparr>"

definition zero_accuracy_spot :: spot where
  "zero_accuracy_spot = good_spot\<lparr>locationMeta := Some \<lparr>isMockLocation = None, accuracy = Some 0\<rparr>\<rparr>"

definition previous_spot :: spot where
  "previous_spot = good_spot\<lparr>spot_id := ''spot1'', createdAt := 1000000\<rparr>"

definition quiet_reads :: db_reads where
  "quiet_reads = \<lparr>recentSubmissions = Inr [], duplicateImages = Inr [], nearbySpots = Inr [],
     userDoc = Inr (Some (fresh_user\<lparr>trustScore := Some 1\<rparr>)), todaySubmissions = Inr 0\<rparr>"


text \<open>The reads when the earlier spot is the latest submission, and when the user document is missing.\<close>

definition rapid_reads :: db_reads where
  "rapid_reads = quiet_reads\<lparr>recentSubmissions := Inr [previous_spot]\<rparr>"



text \<open>
  A user with three rejections in four submissions, the same user after a fifth submission
  was rejected, and stores with each.
\<close>

definition struggling_user :: user where
  "struggling_user = fresh_user\<lparr>trustScore := Some (1 / 2), spotSubmissions := Some 4,
      spotApprovedCount := Some 1, spotRejectedCount := Some 3\<rparr>"

definition banned_user :: user where
  "banned_user = struggling_user\<lparr>trustScore := Some (45 / 100), spotSubmissions := Some 5,
      spotRejectedCount := Some 4, isShadowBanned := Some True\<rparr>"

text \<open>The same user with a stored trust score of exactly zero.\<close>

definition distrusted_user :: user where
  "distrusted_user = struggling_user\<lparr>trustScore := Some 0\<rparr>"

definition trust_store :: store where
  "trust_store = demo_store\<lparr>users := [''user1'' \<mapsto> struggling_user]\<rparr>"

definition banned_store :: store where
  "banned_store = demo_store\<lparr>users := [''user1'' \<mapsto> banned_user]\<rparr>"


section \<open>Theorems\<close>

text \<open>
  C3.  There is a non-negative XP total on which the two level functions of the
  repository, \<open>floor(sqrt(xp/100))+1\<close> and \<open>floor(xp/500)+1\<close>, return different levels:
  at 100 XP the first gives level 2 and the second level 1.
\<close>

theorem level_formulas_differ:
  "\<exists>total. 0 \<le> total \<and> calculateLevel total \<noteq> calculateLevel_qr total
     \<and> calculateLevel total = 2 \<and> calculateLevel_qr total = 1"
  by (rule exI [of _ 100]) (simp add: calculateLevel_def calculateLevel_qr_def)

text \<open>
  The level a user gets depends on the operation: on a user without XP, \<open>awardUserXP\<close> of
  100 XP stores level 2, and \<open>adjustUserXP\<close> of the same amount stores level 1.
\<close>

lemma level_depends_on_operation:
  "map_option level
     (users (snd (awardUserXP 1000 ''user1'' ''SHARE_SPOT'' 100 no_metadata new_user_store)) ''user1'')
     = Some (Some 2)
   \<and> map_option level
     (users (snd (adjustUserXP 1000 (Some ''admin1'')
        \<lparr>reqUserId = ''user1'', reqXpAmount = 100, reqReason = ''correction'', reqType = None\<rparr>
        (new_user_store\<lparr>adminUsers := [''admin1'' \<mapsto>
           \<lparr>adminRole = Some ''ADMIN'', isActive = Some True\<rparr>]\<rparr>))) ''user1'')
     = Some (Some 1)"
  by (simp add: awardUserXP_def adjustUserXP_def checkIsAdmin_def new_user_store_def
      demo_store_def fresh_user_def js_or_def calculateLevel_def calculateXPLevel_def Let_def)

subsection \<open>Evaluation on the example states\<close>

lemma extractRewardId_example: "extractRewardId ''rewardCOFFEE1'' = Some ''rewardCOFFEE1''"
  by (simp add: extractRewardId_def startsWith_def idChar_def)

lemma trim_example: "trim ''rewardCOFFEE1'' = ''rewardCOFFEE1''"
  by (simp add: trim_def isSpace_def)

lemma redeemByQR_example:
  "redeemByQR 1000 ''red1'' (Some ''user1'') ''rewardCOFFEE1'' demo_store =
   (Inr \<lparr>redeemedId = ''red1'', redeemedTitle = ''Coffee'', xpDeducted = 50, redeemedNewXP = 70,
         redeemedNewLevel = 1\<rparr>, redeemed_store)"
  by (simp add: redeemByQR_def redeemByQR_try_def extractRewardId_example trim_example
      demo_store_def demo_reward_def fresh_user_def js_or_def setRedemption_def updateReward_def
      calculateLevel_qr_def Let_def redeemed_store_def demo_redemption_def)

lemma redeemByQR_try_sold_out_example:
  "fst (redeemByQR_try 2000 ''red2'' (Some ''user1'') ''rewardCOFFEE1'' redeemed_store) =
   Inl (HttpsError failed_precondition)"
  by (simp add: redeemByQR_try_def extractRewardId_example trim_example demo_store_def
      demo_reward_def fresh_user_def js_or_def redeemed_store_def demo_redemption_def)

subsection \<open>Redemption by QR code\<close>

text \<open>
  None of the codes that the source passes to \<open>HttpsError\<close> starts with \<open>functions/\<close>, so
  the catch clause of \<open>redeemByQR\<close>, \<open>validateQRCode\<close> and \<open>validateRedemption\<close> hands every
  \<open>HttpsError\<close> raised in the \<open>try\<close> block to the caller as \<open>internal\<close>.  The statements
  below about a particular code are therefore about the error raised in the \<open>try\<close> block.
\<close>

lemma catch_functions_prefix_HttpsError:
  "catch_functions_prefix (HttpsError c) = HttpsError internal"
  by (cases c) (simp_all add: startsWith_def)


lemma redeemByQR_fst: "fst (redeemByQR now newId auth code s) =
   map_sum catch_functions_prefix id (fst (redeemByQR_try now newId auth code s))"
  by (cases "redeemByQR_try now newId auth code s"; cases "fst (redeemByQR_try now newId auth code s)")
     (auto simp: redeemByQR_def)

lemma redeemByQR_snd: "snd (redeemByQR now newId auth code s) = snd (redeemByQR_try now newId auth code s)"
  by (cases "redeemByQR_try now newId auth code s"; cases "fst (redeemByQR_try now newId auth code s)")
     (auto simp: redeemByQR_def)

lemma redeemByQR_try_xpPoints:
  "map_option xpPoints (users (snd (redeemByQR_try now newId auth code s)) u) = map_option xpPoints (users s u)"
  by (auto simp: redeemByQR_try_def Let_def split: option.splits if_splits)

lemma awardUserXP_xp:
  "map_option xp (users (snd (awardUserXP now uid act amt md s)) u) = map_option xp (users s u)"
  by (auto simp: awardUserXP_def Let_def split: option.splits if_splits)

lemma releaseSpotXP_xp:
  "map_option xp (users (snd (releaseSpotXP now uid sp amt descr s)) u) = map_option xp (users s u)"
  by (auto simp: releaseSpotXP_def Let_def split: option.splits if_splits)

lemma redeemByQR_try_success:
  assumes "redeemByQR_try now newId auth code s = (Inr r, s')"
  shows "\<exists>uid userData. auth = Some uid \<and> users s uid = Some userData
     \<and> xpDeducted r \<le> js_or (xp userData) 0
     \<and> redeemedNewXP r = js_or (xp userData) 0 - xpDeducted r
     \<and> redeemedNewLevel r = calculateLevel_qr (redeemedNewXP r)
     \<and> users s' uid = Some (userData\<lparr>xp := Some (redeemedNewXP r), level := Some (redeemedNewLevel r)\<rparr>)"
  using assms
  by (auto simp: redeemByQR_try_def Let_def split: option.splits if_splits)

lemma awardUserXP_success:
  assumes "awardUserXP now uid act amt md s = (Inr r, s')"
  shows "\<exists>userData. users s uid = Some userData
     \<and> newTotalXP r = js_or (xpPoints userData) 0 + amt
     \<and> map_option xpPoints (users s' uid) = Some (Some (newTotalXP r))"
  using assms
  by (auto simp: awardUserXP_def Let_def split: option.splits if_splits)

lemma releaseSpotXP_success:
  assumes "releaseSpotXP now uid sp amt descr s = (Inr r, s')"
  shows "\<exists>userData. users s uid = Some userData
     \<and> newTotalXP r = js_or (xpPoints userData) 0 + amt
     \<and> map_option xpPoints (users s' uid) = Some (Some (newTotalXP r))"
  using assms
  by (auto simp: releaseSpotXP_def Let_def split: option.splits if_splits)

lemma trim_Nil_all_space: "trim s = [] \<Longrightarrow> \<forall>c\<in>set s. isSpace c"
proof -
  assume "trim s = []"
  then have a: "\<forall>x\<in>set (dropWhile isSpace s). isSpace x"
    by (simp add: trim_def dropWhile_eq_Nil_conv)
  have "dropWhile isSpace s = []"
  proof (cases "dropWhile isSpace s")
    case Nil then show ?thesis .
  next
    case (Cons x xs)
    then have "\<not> isSpace x" by (metis hd_dropWhile list.distinct(1) list.sel(1))
    with a Cons show ?thesis by simp
  qed
  then show ?thesis by (simp add: dropWhile_eq_Nil_conv)
qed

lemma matchAfter_Some_mem:
  "matchAfter (p # ps) s = Some r \<Longrightarrow> p \<in> set s"
  by (induction s) (auto simp: startsWith_def split: if_splits)


lemma extractRedemptionId_not_blank:
  assumes "extractRedemptionId code = Some rid" shows "trim code \<noteq> []"
proof
  assume "trim code = []"
  then have sp: "\<forall>c\<in>set code. isSpace c" by (rule trim_Nil_all_space)
  have m: "matchAfter ''mysteriSpots://redemption/'' code = None"
  proof (cases "matchAfter ''mysteriSpots://redemption/'' code")
    case (Some r)
    then have "CHR ''m'' \<in> set code" by (rule matchAfter_Some_mem)
    with sp have "isSpace CHR ''m''" by blast
    then show ?thesis by (simp add: isSpace_def)
  qed simp
  have r: "CHR ''/'' \<notin> set code"
  proof
    assume "CHR ''/'' \<in> set code"
    with sp have "isSpace CHR ''/''" by blast
    then show False by (simp add: isSpace_def)
  qed
  from assms m r show False by (simp add: extractRedemptionId_def)
qed








text \<open>
  What the caller receives in the two examples: the catch clause of \<open>redeemByQR\<close> keeps an
  error only when its code starts with \<open>functions/\<close>, which no code of the source does,
  so both calls answer \<open>internal\<close>.  The comment on that clause reads "Re-throw HttpsError
  as-is", and the catch clause of \<open>adjustUserXP\<close> (\<open>if (error.code) throw error\<close>) does so.
\<close>

lemma second_redemption_reaches_caller_as_internal:
  "fst (redeemByQR 2000 ''red2'' (Some ''user1'') ''rewardCOFFEE1'' restocked_store)
     = Inl (HttpsError internal)
   \<and> fst (redeemByQR 2000 ''red2'' (Some ''user1'') ''rewardCOFFEE1'' redeemed_store)
     = Inl (HttpsError internal)
   \<and> catch_code (HttpsError already_exists) = HttpsError already_exists"
proof -
  have a: "fst (redeemByQR_try 2000 ''red2'' (Some ''user1'') ''rewardCOFFEE1'' restocked_store)
       = Inl (HttpsError already_exists)"
    by (simp add: redeemByQR_try_def extractRewardId_example trim_example restocked_store_def
        redeemed_store_def demo_store_def demo_reward_def demo_redemption_def js_or_def Let_def)
  show ?thesis
    by (simp add: redeemByQR_fst a redeemByQR_try_sold_out_example catch_functions_prefix_HttpsError
        del: catch_functions_prefix.simps)
qed


text \<open>
  C10.  \<open>redeemByQR\<close> never changes the \<open>xpPoints\<close> field of any user; when it succeeds,
  the caller's \<open>xp\<close> field was at least the cost, is debited by the cost, and the level is
  recomputed from it.  \<open>awardUserXP\<close> and \<open>releaseSpotXP\<close> never change the \<open>xp\<close> field of
  any user; when they succeed they read \<open>xpPoints\<close> and add the amount to it.  So XP earned
  through them never raises the balance that \<open>redeemByQR\<close> checks and debits.
\<close>

theorem redemption_and_awards_use_different_balances:
  "(\<forall>u. map_option xpPoints (users (snd (redeemByQR now newId auth code s)) u)
         = map_option xpPoints (users s u))
   \<and> (\<forall>r s'. redeemByQR now newId auth code s = (Inr r, s') \<longrightarrow>
         (\<exists>caller userData. auth = Some caller \<and> users s caller = Some userData
            \<and> xpDeducted r \<le> js_or (xp userData) 0
            \<and> redeemedNewXP r = js_or (xp userData) 0 - xpDeducted r
            \<and> redeemedNewLevel r = calculateLevel_qr (redeemedNewXP r)
            \<and> users s' caller = Some (userData\<lparr>xp := Some (redeemedNewXP r),
                                                level := Some (redeemedNewLevel r)\<rparr>)))
   \<and> (\<forall>u. map_option xp (users (snd (awardUserXP now uid act amt md s)) u)
         = map_option xp (users s u))
   \<and> (\<forall>r s'. awardUserXP now uid act amt md s = (Inr r, s') \<longrightarrow>
         (\<exists>userData. users s uid = Some userData
            \<and> newTotalXP r = js_or (xpPoints userData) 0 + amt
            \<and> map_option xpPoints (users s' uid) = Some (Some (newTotalXP r))))
   \<and> (\<forall>u. map_option xp (users (snd (releaseSpotXP now uid sp amt descr s)) u)
         = map_option xp (users s u))
   \<and> (\<forall>r s'. releaseSpotXP now uid sp amt descr s = (Inr r, s') \<longrightarrow>
         (\<exists>userData. users s uid = Some userData
            \<and> newTotalXP r = js_or (xpPoints userData) 0 + amt
            \<and> map_option xpPoints (users s' uid) = Some (Some (newTotalXP r))))"
proof (intro conjI allI impI)
  fix u show "map_option xpPoints (users (snd (redeemByQR now newId auth code s)) u)
         = map_option xpPoints (users s u)"
    by (simp add: redeemByQR_snd redeemByQR_try_xpPoints)
next
  fix r s' assume a: "redeemByQR now newId auth code s = (Inr r, s')"
  have "redeemByQR_try now newId auth code s = (Inr r, s')"
    using a by (auto simp: redeemByQR_def split: prod.splits sum.splits)
  then show "\<exists>caller userData. auth = Some caller \<and> users s caller = Some userData
            \<and> xpDeducted r \<le> js_or (xp userData) 0
            \<and> redeemedNewXP r = js_or (xp userData) 0 - xpDeducted r
            \<and> redeemedNewLevel r = calculateLevel_qr (redeemedNewXP r)
            \<and> users s' caller = Some (userData\<lparr>xp := Some (redeemedNewXP r),
                                                level := Some (redeemedNewLevel r)\<rparr>)"
    by (rule redeemByQR_try_success)
next
  fix u show "map_option xp (users (snd (awardUserXP now uid act amt md s)) u) = map_option xp (users s u)"
    by (rule awardUserXP_xp)
next
  fix r s' assume "awardUserXP now uid act amt md s = (Inr r, s')"
  then show "\<exists>userData. users s uid = Some userData
            \<and> newTotalXP r = js_or (xpPoints userData) 0 + amt
            \<and> map_option xpPoints (users s' uid) = Some (Some (newTotalXP r))"
    by (rule awardUserXP_success)
next
  fix u show "map_option xp (users (snd (releaseSpotXP now uid sp amt descr s)) u) = map_option xp (users s u)"
    by (rule releaseSpotXP_xp)
next
  fix r s' assume "releaseSpotXP now uid sp amt descr s = (Inr r, s')"
  then show "\<exists>userData. users s uid = Some userData
            \<and> newTotalXP r = js_or (xpPoints userData) 0 + amt
            \<and> map_option xpPoints (users s' uid) = Some (Some (newTotalXP r))"
    by (rule releaseSpotXP_success)
qed

lemma award_demo:
  "\<exists>r s'. awardUserXP 3000 ''user1'' ''DAILY_LOGIN'' 10 no_metadata demo_store = (Inr r, s')"
  by (simp add: awardUserXP_def demo_store_def Let_def)

lemma release_demo:
  "\<exists>r s'. releaseSpotXP 3000 ''user1'' ''spot1'' 100 ''Spot approved'' demo_store = (Inr r, s')"
  by (simp add: releaseSpotXP_def demo_store_def Let_def)

theorem redemption_and_awards_use_different_balances_witness:
  "redeemByQR 1000 ''red1'' (Some ''user1'') ''rewardCOFFEE1'' demo_store =
     (Inr \<lparr>redeemedId = ''red1'', redeemedTitle = ''Coffee'', xpDeducted = 50, redeemedNewXP = 70,
           redeemedNewLevel = 1\<rparr>, redeemed_store)
   \<and> map_option xpPoints (users demo_store ''user1'') = Some (Some 300)
   \<and> map_option xpPoints (users redeemed_store ''user1'') = Some (Some 300)
   \<and> map_option xp (users demo_store ''user1'') = Some (Some 120)
   \<and> map_option xp (users redeemed_store ''user1'') = Some (Some 70)
   \<and> (\<exists>r s'. awardUserXP 3000 ''user1'' ''DAILY_LOGIN'' 10 no_metadata demo_store = (Inr r, s')
        \<and> newTotalXP r = 310
        \<and> map_option xpPoints (users s' ''user1'') = Some (Some 310)
        \<and> map_option xp (users s' ''user1'') = Some (Some 120))
   \<and> (\<exists>r s'. releaseSpotXP 3000 ''user1'' ''spot1'' 100 ''Spot approved'' demo_store = (Inr r, s')
        \<and> newTotalXP r = 400
        \<and> map_option xpPoints (users s' ''user1'') = Some (Some 400)
        \<and> map_option xp (users s' ''user1'') = Some (Some 120))"
proof -
  note t = redemption_and_awards_use_different_balances
    [where s = demo_store and uid = "''user1''" and now = 3000 and amt = 10
       and act = "''DAILY_LOGIN''" and md = no_metadata and auth = "Some ''user1''"
       and code = "''rewardCOFFEE1''" and newId = "''red1''"
       and sp = "''spot1''" and descr = "''Spot approved''"]
  note t2 = redemption_and_awards_use_different_balances
    [where s = demo_store and uid = "''user1''" and now = 3000 and amt = 100
       and act = "''DAILY_LOGIN''" and md = no_metadata and auth = "Some ''user1''"
       and code = "''rewardCOFFEE1''" and newId = "''red1''"
       and sp = "''spot1''" and descr = "''Spot approved''"]
  have u: "users demo_store ''user1'' = Some (fresh_user\<lparr>xpPoints := Some 300, xp := Some 120\<rparr>)"
    by (simp add: demo_store_def)
  have x: "map_option xp (users demo_store ''user1'') = Some (Some 120)"
    "map_option xpPoints (users demo_store ''user1'') = Some (Some 300)"
    by (simp_all add: u)
  have y: "map_option xp (users redeemed_store ''user1'') = Some (Some 70)"
    "map_option xpPoints (users redeemed_store ''user1'') = Some (Some 300)"
    by (simp_all add: redeemed_store_def)
  have a: "\<exists>r s'. awardUserXP 3000 ''user1'' ''DAILY_LOGIN'' 10 no_metadata demo_store = (Inr r, s')
        \<and> newTotalXP r = 310
        \<and> map_option xpPoints (users s' ''user1'') = Some (Some 310)
        \<and> map_option xp (users s' ''user1'') = Some (Some 120)"
  proof -
    obtain r s' where e: "awardUserXP 3000 ''user1'' ''DAILY_LOGIN'' 10 no_metadata demo_store = (Inr r, s')"
      using award_demo by blast
    from t e u have "newTotalXP r = 310 \<and> map_option xpPoints (users s' ''user1'') = Some (Some 310)"
      by (auto simp: js_or_def)
    moreover from t e x have "map_option xp (users s' ''user1'') = Some (Some 120)"
      by (metis snd_conv)
    ultimately show ?thesis using e by blast
  qed
  have b: "\<exists>r s'. releaseSpotXP 3000 ''user1'' ''spot1'' 100 ''Spot approved'' demo_store = (Inr r, s')
        \<and> newTotalXP r = 400
        \<and> map_option xpPoints (users s' ''user1'') = Some (Some 400)
        \<and> map_option xp (users s' ''user1'') = Some (Some 120)"
  proof -
    obtain r s' where e: "releaseSpotXP 3000 ''user1'' ''spot1'' 100 ''Spot approved'' demo_store = (Inr r, s')"
      using release_demo by blast
    from t2 e u have "newTotalXP r = 400 \<and> map_option xpPoints (users s' ''user1'') = Some (Some 400)"
      by (auto simp: js_or_def)
    moreover from t2 e x have "map_option xp (users s' ''user1'') = Some (Some 120)"
      by (metis snd_conv)
    ultimately show ?thesis using e by blast
  qed
  show ?thesis using a b x y by (simp add: redeemByQR_example)
qed

subsection \<open>Validation of a redemption by the sponsor\<close>

lemma extractRedemptionId_example:
  "extractRedemptionId ''mysteriSpots://redemption/red1'' = Some ''red1''"
  by (simp add: extractRedemptionId_def startsWith_def idChar_def)

lemma trim_example2: "trim ''mysteriSpots://redemption/red1'' \<noteq> []"
  by (simp add: trim_def isSpace_def)

lemma validateRedemption_check_not_in_first_100:
  assumes "extractRedemptionId code = Some rid"
    and "rid \<notin> redemptionId ` set (take 100 (redemptions s))"
  shows "validateRedemption_check (Some caller) code s = Inl (HttpsError not_found)"
proof -
  have nb: "trim code \<noteq> []" using assms(1) by (rule extractRedemptionId_not_blank)
  have "find (\<lambda>d. redemptionId d = rid) (take 100 (redemptions s)) = None"
    using assms(2) by (auto simp: find_None_iff)
  then show ?thesis using nb assms(1) by (simp add: validateRedemption_check_def)
qed

lemma crowded_take: "take 100 (redemptions crowded_store) = map filler_redemption [0..<100]"
  by (simp add: crowded_store_def)

lemma crowded_not_in_first_100:
  "''red1'' \<notin> redemptionId ` set (take 100 (redemptions crowded_store))"
  by (auto simp: crowded_take filler_redemption_def)

lemma replicate_le: "i \<le> j \<Longrightarrow> replicate i (c::char) \<le> replicate j c"
proof (induction i arbitrary: j)
  case 0 then show ?case by (cases j) simp_all
next
  case (Suc i) then show ?case by (cases j) simp_all
qed

lemma filler_path: "redemptionPath (filler_redemption n) = (replicate (Suc n) CHR ''a'', ''red0'')"
  by (simp add: redemptionPath_def filler_redemption_def)

lemma demo_path: "redemptionPath demo_redemption = (''user1'', ''red1'')"
  by (simp add: redemptionPath_def demo_redemption_def)

lemma crowded_sorted: "sorted (map redemptionPath (redemptions crowded_store))"
proof -
  have a: "sorted (map (\<lambda>n. redemptionPath (filler_redemption n)) [0..<100])"
    unfolding sorted_iff_nth_mono
  proof (intro allI impI)
    fix i j :: nat
    assume "i \<le> j" and "j < length (map (\<lambda>n. redemptionPath (filler_redemption n)) [0..<100])"
    then have "replicate i CHR ''a'' \<le> replicate j CHR ''a''" "i < 100" "j < 100"
      by (simp_all add: replicate_le)
    then show "map (\<lambda>n. redemptionPath (filler_redemption n)) [0..<100] ! i
        \<le> map (\<lambda>n. redemptionPath (filler_redemption n)) [0..<100] ! j"
      by (auto simp: filler_path less_eq_prod_def)
  qed
  have b: "\<And>n. redemptionPath (filler_redemption n) \<le> redemptionPath demo_redemption"
    by (simp add: filler_path demo_path less_eq_prod_def)
  show ?thesis
    using a b by (auto simp: crowded_store_def sorted_append comp_def)
qed


lemma validateRedemption_check_example:
  "validateRedemption_check (Some ''sponsor1'') ''mysteriSpots://redemption/red1'' redeemed_store
     = Inr demo_redemption"
  using trim_example2
  by (simp add: validateRedemption_check_def extractRedemptionId_example
        redeemed_store_def demo_store_def demo_sponsor_def)
     (simp add: demo_redemption_def)

lemma commit_first:
  "validateRedemption_commit 5000 ''sponsor1'' demo_redemption redeemed_store =
     (Inr (), redeemed_store\<lparr>redemptions := [used_redemption 5000],
        notifications := notifications redeemed_store @ [used_notification]\<rparr>)"
  by (simp add: validateRedemption_commit_def redeemed_store_def used_redemption_def
      used_notification_def) (simp add: demo_redemption_def)

lemma commit_second:
  "validateRedemption_commit 6000 ''sponsor1'' demo_redemption
     (redeemed_store\<lparr>redemptions := [used_redemption 5000],
        notifications := notifications redeemed_store @ [used_notification]\<rparr>) =
     (Inr (), redeemed_store\<lparr>redemptions := [used_redemption 6000],
        notifications := notifications redeemed_store @ [used_notification, used_notification]\<rparr>)"
  by (simp add: validateRedemption_commit_def redeemed_store_def used_redemption_def
      used_notification_def redemptionPath_def) (simp add: demo_redemption_def)

lemma check_after_first:
  "validateRedemption_check (Some ''sponsor1'') ''mysteriSpots://redemption/red1''
     (redeemed_store\<lparr>redemptions := [used_redemption 5000],
        notifications := notifications redeemed_store @ [used_notification]\<rparr>)
     = Inl (HttpsError already_exists)"
  using trim_example2
  by (simp add: validateRedemption_check_def extractRedemptionId_example
        redeemed_store_def demo_store_def demo_sponsor_def used_redemption_def)
     (simp add: demo_redemption_def)


text \<open>
  \<open>validateRedemption\<close> looks for the redemption id among the first 100 documents of the
  collection group only: whenever the id is not among them, the lookup throws \<open>not-found\<close>,
  nothing is written, and the catch clause hands the error to the caller as \<open>internal\<close>.
  No call of \<open>validateRedemption\<close> answers \<open>not-found\<close>.
\<close>

lemma validateRedemption_outside_first_100:
  assumes "extractRedemptionId code = Some rid"
    and "rid \<notin> redemptionId ` set (take 100 (redemptions s))"
  shows "validateRedemption now (Some caller) code s = (Inl (HttpsError internal), s)"
  using validateRedemption_check_not_in_first_100 [OF assms, of caller]
  by (simp add: validateRedemption_def startsWith_def)

lemma catch_functions_prefix_not_found: "catch_functions_prefix e \<noteq> HttpsError not_found"
  by (cases e) (simp_all add: catch_functions_prefix_HttpsError del: catch_functions_prefix.simps(1))

lemma validateRedemption_never_not_found:
  "fst (validateRedemption now auth code s) \<noteq> Inl (HttpsError not_found)"
  by (auto simp: validateRedemption_def catch_functions_prefix_not_found
      simp del: catch_functions_prefix.simps split: sum.splits prod.splits)


text \<open>
  C9.  The claim: since \<open>validateRedemption\<close> fetches at most 100 documents of the
  collection group and scans them, there is a store, with 100 redemptions ordered before
  the target, in which the call fails with \<open>not-found\<close> although the redemption exists and
  is un-used.  In the store of the example a hundred redemptions of other users precede
  the un-used redemption \<open>red1\<close> of \<open>user1\<close> in path order.  The lookup of the sponsor's
  call throws \<open>not-found\<close> there, as the claim says, but the call does not fail with
  \<open>not-found\<close>: its catch clause keeps an error only when its code starts with
  \<open>functions/\<close>, so the caller receives \<open>internal\<close>; nothing is written.  On the store
  that holds that redemption alone, the same call succeeds and marks it used.
\<close>

theorem validateRedemption_not_found_reaches_caller_as_internal:
  "length (redemptions crowded_store) = 101
   \<and> redemptions crowded_store ! 100 = demo_redemption
   \<and> sorted (map redemptionPath (redemptions crowded_store))
   \<and> redemptionId demo_redemption = ''red1'' \<and> \<not> used demo_redemption
   \<and> ''red1'' \<notin> redemptionId ` set (take 100 (redemptions crowded_store))
   \<and> extractRedemptionId ''mysteriSpots://redemption/red1'' = Some ''red1''
   \<and> validateRedemption_check (Some ''sponsor1'') ''mysteriSpots://redemption/red1'' crowded_store
       = Inl (HttpsError not_found)
   \<and> validateRedemption 5000 (Some ''sponsor1'') ''mysteriSpots://redemption/red1'' crowded_store
       = (Inl (HttpsError internal), crowded_store)
   \<and> validateRedemption 5000 (Some ''sponsor1'') ''mysteriSpots://redemption/red1'' redeemed_store
       = (Inr demo_redemption, redeemed_store\<lparr>redemptions := [used_redemption 5000],
            notifications := notifications redeemed_store @ [used_notification]\<rparr>)"
proof -
  have 1: "length (redemptions crowded_store) = 101"
    "redemptions crowded_store ! 100 = demo_redemption"
    by (simp_all add: crowded_store_def nth_append)
  have 2: "redemptionId demo_redemption = ''red1''" "\<not> used demo_redemption"
    by (simp_all add: demo_redemption_def)
  have 3: "validateRedemption_check (Some ''sponsor1'') ''mysteriSpots://redemption/red1''
       crowded_store = Inl (HttpsError not_found)"
    using crowded_not_in_first_100
    by (simp add: validateRedemption_check_not_in_first_100 extractRedemptionId_example)
  have 4: "validateRedemption 5000 (Some ''sponsor1'') ''mysteriSpots://redemption/red1'' crowded_store
       = (Inl (HttpsError internal), crowded_store)"
    using 3 by (simp add: validateRedemption_def startsWith_def)
  have 5: "validateRedemption 5000 (Some ''sponsor1'') ''mysteriSpots://redemption/red1'' redeemed_store
       = (Inr demo_redemption, redeemed_store\<lparr>redemptions := [used_redemption 5000],
            notifications := notifications redeemed_store @ [used_notification]\<rparr>)"
    by (simp add: validateRedemption_def validateRedemption_check_example commit_first)
  show ?thesis
    using 1 2 3 4 5 crowded_sorted crowded_not_in_first_100 extractRedemptionId_example
    by simp
qed


text \<open>
  A call of \<open>validateRedemption\<close> that runs alone: when a check fails, nothing is written;
  when the checks pass, the document read was un-used and the document at its path is
  marked used with the time and the caller.
\<close>

lemma find_Some_mem: "find P xs = Some x \<Longrightarrow> x \<in> set xs \<and> P x"
  by (induction xs) (auto split: if_splits)

lemma validateRedemption_check_Inr:
  assumes "validateRedemption_check auth code s = Inr d"
  shows "d \<in> set (take 100 (redemptions s)) \<and> \<not> used d \<and> auth \<noteq> None"
  using assms
  by (auto simp: validateRedemption_check_def Let_def dest: find_Some_mem
      split: option.splits if_splits)

lemma validateRedemption_failure_keeps_store:
  assumes "validateRedemption_check auth code s = Inl e"
  shows "validateRedemption now auth code s = (Inl (catch_functions_prefix e), s)"
  using assms by (simp add: validateRedemption_def)

lemma validateRedemption_success_marks:
  assumes "validateRedemption_check (Some caller) code s = Inr d"
  shows "fst (validateRedemption now (Some caller) code s) = Inr d"
    and "\<forall>x \<in> set (redemptions (snd (validateRedemption now (Some caller) code s))).
           redemptionPath x = redemptionPath d \<longrightarrow>
             used x \<and> usedAt x = Some now \<and> validatedBy x = Some caller"
proof -
  from validateRedemption_check_Inr [OF assms] have "d \<in> set (redemptions s)"
    by (meson in_set_takeD)
  then have m: "redemptionPath d \<in> redemptionPath ` set (redemptions s)" by blast
  from m assms show "fst (validateRedemption now (Some caller) code s) = Inr d"
    by (simp add: validateRedemption_def validateRedemption_commit_def)
  from m assms show "\<forall>x \<in> set (redemptions (snd (validateRedemption now (Some caller) code s))).
           redemptionPath x = redemptionPath d \<longrightarrow>
             used x \<and> usedAt x = Some now \<and> validatedBy x = Some caller"
    by (auto simp: validateRedemption_def validateRedemption_commit_def redemptionPath_def)
qed

text \<open>
  C4.  The claim asks for the \<open>used\<close> check to be re-verified in the atomic unit that
  writes; the source reads the document, checks \<open>used\<close> on what it read, and later updates
  the document without a transaction.  Two calls for the same un-used redemption whose
  reads both precede the writes: both pass the check, both write, and the second write
  replaces the \<open>usedAt\<close> of the first; the user is notified twice.
\<close>

theorem validateRedemption_concurrent_calls_both_mark_used:
  "validateRedemption_check (Some ''sponsor1'') ''mysteriSpots://redemption/red1'' redeemed_store
     = Inr demo_redemption
   \<and> \<not> used demo_redemption
   \<and> validateRedemption_commit 5000 ''sponsor1'' demo_redemption redeemed_store =
       (Inr (), redeemed_store\<lparr>redemptions := [used_redemption 5000],
          notifications := notifications redeemed_store @ [used_notification]\<rparr>)
   \<and> validateRedemption_commit 6000 ''sponsor1'' demo_redemption
       (redeemed_store\<lparr>redemptions := [used_redemption 5000],
          notifications := notifications redeemed_store @ [used_notification]\<rparr>) =
       (Inr (), redeemed_store\<lparr>redemptions := [used_redemption 6000],
          notifications := notifications redeemed_store @ [used_notification, used_notification]\<rparr>)
   \<and> used_redemption 5000 \<noteq> used_redemption 6000"
  by (simp add: validateRedemption_check_example commit_first commit_second) (simp add: used_redemption_def demo_redemption_def)


subsection \<open>Sponsor QR codes\<close>

text \<open>
  \<open>validateQRCode\<close>, the validation that the sources contain, reads no sponsor document:
  its answer to any text is the same before and after \<open>regenerateSponsorQR\<close>.  A sponsor
  code is checked by the validation modelled from the spec; the statements below are about
  that one.
\<close>

lemma validateQRCode_regenerate:
  "validateQRCode auth code (snd (regenerateSponsorQR now newSecret nonce caller s)) = validateQRCode auth code s"
  by (auto simp: validateQRCode_def validateQRCode_try_def regenerateSponsorQR_def
      generateQRDataForSponsor_def Let_def split: option.splits prod.splits)







lemma showInt_example: "showInt 1 = ''1'' \<and> showInt 1000 = ''1000'' \<and> showInt (- 42) = ''-42''"
  by code_simp


text \<open>
  What an issuance leaves: the sponsor has the secret that signed the code, and the code
  names the sponsor, embeds the sponsor's version as the issuing side reads it and carries
  the HMAC of its own text under that secret.
\<close>

lemma generateQRDataForSponsor_Some:
  assumes "generateQRDataForSponsor t0 secret0 nonce0 sid s = (Some issued, s1)"
  shows "\<exists>sp k. sponsors s1 sid = Some sp \<and> qrSecret sp = Some k
     \<and> payloadSid (qrData issued) = sid
     \<and> payloadV (qrData issued) = js_or (qrVersion sp) 1
     \<and> payloadSig (qrData issued) =
           HmacSha256 k (dataToSign (payloadV (qrData issued)) sid (payloadTs (qrData issued))
                (payloadNonce (qrData issued)))"
proof -
  from assms obtain sp0 where sp0: "sponsors s sid = Some sp0"
    by (auto simp: generateQRDataForSponsor_def split: option.splits)
  show ?thesis
  proof (cases "qrSecret sp0 \<in> {None, Some []}")
    case True
    with assms sp0 show ?thesis
      by (auto simp: generateQRDataForSponsor_def Let_def)
  next
    case False
    then obtain k where "qrSecret sp0 = Some k" by (cases "qrSecret sp0") auto
    with False assms sp0 show ?thesis
      by (auto simp: generateQRDataForSponsor_def Let_def)
  qed
qed













subsection \<open>The ledger\<close>

lemma replayLedger_append:
  "replayLedger (txs @ [t]) uid =
     replayLedger txs uid + (if userId t = uid \<and> txType t \<noteq> ''DENIAL'' then amount t else 0)"
  by (simp add: replayLedger_def)

text \<open>
  \<open>awardUserXP\<close> keeps the ledger invariant when its metadata carries none of the keys
  \<open>userId\<close>, \<open>amount\<close> and \<open>type\<close>; a metadata object with an \<open>amount\<close> key replaces the
  amount of the entry, not the amount added to \<open>xpPoints\<close>.
\<close>

lemma awardUserXP_ledgerConsistent:
  "ledgerConsistent s \<Longrightarrow> mdUserId md = None \<Longrightarrow> mdAmount md = None \<Longrightarrow> mdType md = None
     \<Longrightarrow> ledgerConsistent (snd (awardUserXP now uid act amt md s))"
  by (auto simp: ledgerConsistent_def awardUserXP_def Let_def replayLedger_append js_or_def
      spread_def split: option.splits)

lemma awardUserXP_overriding_metadata:
  "ledgerConsistent new_user_store
   \<and> (case awardUserXP 1000 ''user1'' ''DAILY_LOGIN'' 10 overriding_metadata new_user_store of
         (r, s') \<Rightarrow>
            map_sum id newTotalXP r = Inr 10
          \<and> map_option xpPoints (users s' ''user1'') = Some (Some 10)
          \<and> replayLedger (xpTransactions s') ''user1'' = 1000000)"
  by (simp add: ledgerConsistent_def new_user_store_def demo_store_def fresh_user_def
      awardUserXP_def overriding_metadata_def no_metadata_def replayLedger_def js_or_def
      spread_def spread_opt_def Let_def)

lemma releaseSpotXP_ledgerConsistent:
  "ledgerConsistent s \<Longrightarrow> ledgerConsistent (snd (releaseSpotXP now uid sp amt descr s))"
  by (auto simp: ledgerConsistent_def releaseSpotXP_def Let_def replayLedger_append js_or_def
      split: option.splits)

lemma logXPDenial_ledgerConsistent:
  "ledgerConsistent s \<Longrightarrow> ledgerConsistent (logXPDenial now uid sp amt reason s)"
  by (simp add: ledgerConsistent_def logXPDenial_def replayLedger_append)

text \<open>
  Which operations write the ledger: \<open>awardUserXP\<close>, \<open>releaseSpotXP\<close> and \<open>adjustUserXP\<close>
  append one entry when they succeed; \<open>adminGrantXP\<close> and \<open>redeemByQR\<close> never append.
\<close>

lemma adminGrantXP_ledger_unchanged:
  "xpTransactions (snd (adminGrantXP auth data s)) = xpTransactions s"
  by (simp add: adminGrantXP_def Let_def split: option.splits)

lemma adminGrantXP_success:
  assumes "adminGrantXP auth data s = (Inr r, s')"
  shows "\<exists>userData. users s (reqUserId data) = Some userData
     \<and> 0 < reqXpAmount data
     \<and> grantNewXP r = js_or (xpPoints userData) (js_or (xp userData) 0) + reqXpAmount data
     \<and> map_option xpPoints (users s' (reqUserId data)) = Some (Some (grantNewXP r))
     \<and> xpTransactions s' = xpTransactions s"
  using assms by (auto simp: adminGrantXP_def Let_def split: option.splits if_splits)

lemma redeemByQR_ledger_unchanged:
  "xpTransactions (snd (redeemByQR now newId auth code s)) = xpTransactions s"
  by (auto simp: redeemByQR_snd redeemByQR_try_def Let_def split: option.splits if_splits)

lemma awardUserXP_appends_entry:
  assumes "awardUserXP now uid act amt md s = (Inr r, s')"
  shows "\<exists>e. xpTransactions s' = xpTransactions s @ [e]
           \<and> userId e = spread uid (mdUserId md) \<and> amount e = spread amt (mdAmount md)
           \<and> txType e = spread ''AWARD'' (mdType md)"
  using assms by (auto simp: awardUserXP_def Let_def split: option.splits)

lemma releaseSpotXP_appends_entry:
  assumes "releaseSpotXP now uid sp amt descr s = (Inr r, s')"
  shows "\<exists>e. xpTransactions s' = xpTransactions s @ [e] \<and> userId e = uid \<and> amount e = amt
           \<and> txType e = ''AWARD''"
  using assms by (auto simp: releaseSpotXP_def Let_def split: option.splits)

lemma adjustUserXP_appends_entry:
  assumes "adjustUserXP now auth data s = (Inr r, s')"
  shows "\<exists>e. xpTransactions s' = xpTransactions s @ [e] \<and> userId e = reqUserId data
           \<and> amount e = reqXpAmount data \<and> 0 \<le> grantNewXP r
           \<and> map_option xpPoints (users s' (reqUserId data)) = Some (Some (grantNewXP r))"
  using assms by (auto simp: adjustUserXP_def Let_def split: option.splits if_splits)

text \<open>
  A successful \<open>adminGrantXP\<close> on a store that satisfies the ledger invariant, for a user
  without negative balances, always yields a store that violates it.
\<close>

lemma adminGrantXP_breaks_ledger:
  assumes "ledgerConsistent s"
    and "adminGrantXP auth data s = (Inr r, s')"
    and "users s (reqUserId data) = Some u"
    and "0 \<le> js_or (xpPoints u) 0" and "0 \<le> js_or (xp u) 0"
  shows "\<not> ledgerConsistent s'"
proof
  assume c: "ledgerConsistent s'"
  from adminGrantXP_success [OF assms(2)] assms(3)
  have amt: "0 < reqXpAmount data"
    and new: "grantNewXP r = js_or (xpPoints u) (js_or (xp u) 0) + reqXpAmount data"
    and upd: "map_option xpPoints (users s' (reqUserId data)) = Some (Some (grantNewXP r))"
    and led: "xpTransactions s' = xpTransactions s"
    by auto
  from upd obtain u' where u': "users s' (reqUserId data) = Some u'" "xpPoints u' = Some (grantNewXP r)"
    by auto
  from assms(1,3) have old: "replayLedger (xpTransactions s) (reqUserId data) = js_or (xpPoints u) 0"
    by (simp add: ledgerConsistent_def)
  from c u' have "replayLedger (xpTransactions s') (reqUserId data) = js_or (Some (grantNewXP r)) 0"
    by (auto simp: ledgerConsistent_def)
  with old led have eq: "js_or (xpPoints u) 0 = js_or (Some (grantNewXP r)) 0" by simp
  have "js_or (xpPoints u) 0 \<le> js_or (xpPoints u) (js_or (xp u) 0)"
    using assms(5) by (auto simp: js_or_def split: option.splits)
  with amt new assms(4) have "js_or (xpPoints u) 0 < grantNewXP r" "0 < grantNewXP r" by auto
  with eq show False by (simp add: js_or_def)
qed

text \<open>
  C1.  The claim asks that the replay of a user's ledger entries give the user's
  \<open>xpPoints\<close> after any sequence of XP operations.  \<open>releaseSpotXP\<close>, \<open>logXPDenial\<close> and
  \<open>awardUserXP\<close> (with metadata that replaces none of the entry's \<open>userId\<close>, \<open>amount\<close> and
  \<open>type\<close>) keep that invariant; \<open>adminGrantXP\<close> raises \<open>xpPoints\<close> and appends nothing: on
  a user without XP and an empty ledger, a grant of 50 leaves the ledger empty, so the
  replay gives 0 and \<open>xpPoints\<close> is 50.
\<close>

theorem adminGrantXP_writes_no_ledger_entry:
  "replayLedger (xpTransactions new_user_store) ''user1'' = 0
   \<and> map_option (\<lambda>u. js_or (xpPoints u) 0) (users new_user_store ''user1'') = Some 0
   \<and> (case adminGrantXP (Some ''admin1'') grant_request new_user_store of
         (r, s') \<Rightarrow>
            r = Inr \<lparr>grantPreviousXP = 0, grantNewXP = 50, grantAmount = 50\<rparr>
          \<and> xpTransactions s' = []
          \<and> map_option xpPoints (users s' ''user1'') = Some (Some 50)
          \<and> replayLedger (xpTransactions s') ''user1'' = 0)"
  by (simp add: new_user_store_def demo_store_def fresh_user_def grant_request_def adminGrantXP_def
      replayLedger_def js_or_def Let_def)

subsection \<open>The verification scoring engine\<close>



lemma location_rapid: "checkLocationAccuracy (Inr [previous_spot]) good_spot =
   \<lparr>score = 20, reasons = [''unrealistic_movement_detected'', ''excellent_gps_accuracy''],
    flags = [''suspicious_movement'']\<rparr>"
  by (simp add: checkLocationAccuracy_def analyzeMovementPattern_def good_spot_def previous_spot_def
      js_or_def EXCELLENT_ACCURACY_def Let_def)
























lemma analyzeMovementPattern_rapid:
  assumes "createdAt spotData - createdAt lastSubmission < 60000"
  shows "analyzeMovementPattern (lastSubmission # earlier) spotData"
  using assms by (simp add: analyzeMovementPattern_def)

lemma checkLocationAccuracy_rapid:
  assumes "createdAt spotData - createdAt lastSubmission < 60000"
  shows "''suspicious_movement'' \<in> set (flags (checkLocationAccuracy (Inr (lastSubmission # earlier)) spotData))"
    and "score (checkLocationAccuracy (Inr (lastSubmission # earlier)) spotData) =
      (let acc = js_or (case locationMeta spotData of None \<Rightarrow> None | Some m \<Rightarrow> accuracy m) 999
       in if acc \<le> 20 then 20 else if acc \<le> 50 then 10 else 0)"
  using analyzeMovementPattern_rapid [OF assms, of earlier]
  by (simp_all add: checkLocationAccuracy_def Let_def EXCELLENT_ACCURACY_def GOOD_ACCURACY_def
      POOR_ACCURACY_def)


text \<open>
  C2, as amended.  Let the query for the submitter's recent submissions succeed, and let
  the latest of them have been created less than 60 seconds before the new spot.  Then
  the location check raises \<open>suspicious_movement\<close> (so the verification is \<open>FLAGGED\<close>), and
  the location sub-score is the GPS bonus alone: 20 when the reported accuracy is not zero
  and at most 20 m, 10 when it is above 20 m and at most 50 m, and 0 otherwise, that is
  when no accuracy is reported, when the reported accuracy is 0 (the source reads both as
  999 m: \<open>accuracy || 999\<close>) or when it is above 50 m.
\<close>

theorem rapid_resubmission_location_score:
  assumes "recentSubmissions db = Inr (lastSubmission # earlier)"
    and "createdAt spotData - createdAt lastSubmission < 60000"
  shows "''suspicious_movement'' \<in> set (flags (checkLocationAccuracy (recentSubmissions db) spotData))
     \<and> ''suspicious_movement'' \<in> set (flags (performSpotVerification now db spotData))
     \<and> status (performSpotVerification now db spotData) = ''FLAGGED''
     \<and> locationAccuracy (detailedScores (performSpotVerification now db spotData)) =
         score (checkLocationAccuracy (recentSubmissions db) spotData)
     \<and> score (checkLocationAccuracy (recentSubmissions db) spotData) =
         (case (case locationMeta spotData of None \<Rightarrow> None | Some m \<Rightarrow> accuracy m) of
            None \<Rightarrow> 0
          | Some a \<Rightarrow> if a \<noteq> 0 \<and> a \<le> 20 then 20
                     else if a \<noteq> 0 \<and> 20 < a \<and> a \<le> 50 then 10
                     else 0)"
proof -
  note r = checkLocationAccuracy_rapid [OF assms(2), of earlier]
  have f: "''suspicious_movement'' \<in> set (flags (performSpotVerification now db spotData))"
    using r(1) by (simp add: performSpotVerification_def Let_def assms(1))
  then have "flags (performSpotVerification now db spotData) \<noteq> []" by auto
  then have st: "status (performSpotVerification now db spotData) = ''FLAGGED''"
    by (simp add: performSpotVerification_def Let_def)
  have d: "locationAccuracy (detailedScores (performSpotVerification now db spotData)) =
         score (checkLocationAccuracy (recentSubmissions db) spotData)"
    by (simp add: performSpotVerification_def Let_def)
  have sc: "score (checkLocationAccuracy (Inr (lastSubmission # earlier)) spotData) =
         (case (case locationMeta spotData of None \<Rightarrow> None | Some m \<Rightarrow> accuracy m) of
            None \<Rightarrow> 0
          | Some a \<Rightarrow> if a \<noteq> 0 \<and> a \<le> 20 then 20
                     else if a \<noteq> 0 \<and> 20 < a \<and> a \<le> 50 then 10
                     else 0)"
    unfolding r(2) by (auto simp: js_or_def Let_def split: option.splits)
  from r(1) f st d sc show ?thesis by (simp add: assms(1))
qed

theorem rapid_resubmission_location_score_witness:
  "recentSubmissions rapid_reads = Inr [previous_spot]
   \<and> createdAt good_spot - createdAt previous_spot < 60000
   \<and> createdAt zero_accuracy_spot - createdAt previous_spot < 60000
   \<and> ''suspicious_movement'' \<in> set (flags (performSpotVerification 2000000 rapid_reads good_spot))
   \<and> status (performSpotVerification 2000000 rapid_reads good_spot) = ''FLAGGED''
   \<and> locationAccuracy (detailedScores (performSpotVerification 2000000 rapid_reads good_spot)) = 20
   \<and> ''suspicious_movement'' \<in> set (flags (performSpotVerification 2000000 rapid_reads zero_accuracy_spot))
   \<and> locationAccuracy (detailedScores (performSpotVerification 2000000 rapid_reads zero_accuracy_spot)) = 0"
proof -
  have a: "recentSubmissions rapid_reads = Inr (previous_spot # [])"
    by (simp add: rapid_reads_def)
  have b: "createdAt good_spot - createdAt previous_spot < 60000"
    "createdAt zero_accuracy_spot - createdAt previous_spot < 60000"
    by (simp_all add: good_spot_def previous_spot_def zero_accuracy_spot_def)
  have c: "(case locationMeta good_spot of None \<Rightarrow> None | Some m \<Rightarrow> accuracy m) = Some 15"
    "(case locationMeta zero_accuracy_spot of None \<Rightarrow> None | Some m \<Rightarrow> accuracy m) = Some 0"
    by (simp_all add: good_spot_def zero_accuracy_spot_def)
  from rapid_resubmission_location_score [OF a b(1), of 2000000]
    rapid_resubmission_location_score [OF a b(2), of 2000000] a b
  show ?thesis by (simp add: c)
qed


text \<open>
  The claim as stated fails for a spot with an accuracy of 15 m submitted 30 seconds after
  the previous one: the flag is raised and the location sub-score is 20, not 0.  It also
  fails when the query for the recent submissions throws: the location check then raises
  no flag and scores 50.
\<close>

theorem rapid_resubmission_score_counterexample:
  "createdAt good_spot - createdAt previous_spot = 30000
   \<and> createdBy previous_spot = createdBy good_spot
   \<and> ''suspicious_movement'' \<in> set (flags (checkLocationAccuracy (Inr [previous_spot]) good_spot))
   \<and> score (checkLocationAccuracy (Inr [previous_spot]) good_spot) = 20
   \<and> score (checkLocationAccuracy (Inr [previous_spot]) good_spot) \<noteq> 0
   \<and> checkLocationAccuracy (Inl FirestoreError) good_spot =
       \<lparr>score = 50, reasons = [''location_check_error''], flags = []\<rparr>"
  by (simp add: location_rapid) (simp add: good_spot_def previous_spot_def checkLocationAccuracy_def)


subsection \<open>The trust ledger\<close>

lemma updateUserTrustScore_keeps_ban:
  assumes "users s uid = Some u" and "isShadowBanned u = Some True"
  shows "\<exists>u'. users (updateUserTrustScore uid' st s) uid = Some u' \<and> isShadowBanned u' = Some True"
  using assms by (auto simp: updateUserTrustScore_def Let_def split: option.splits)

lemma updateUserTrustScore_fold_keeps_ban:
  assumes "users s uid = Some u" and "isShadowBanned u = Some True"
  shows "\<exists>u'. users (foldl (\<lambda>s' (uid', st). updateUserTrustScore uid' st s') s ops) uid = Some u'
           \<and> isShadowBanned u' = Some True"
  using assms
proof (induction ops arbitrary: s u)
  case Nil then show ?case by simp
next
  case (Cons op ops)
  obtain uid' st where op: "op = (uid', st)" by (cases op)
  from updateUserTrustScore_keeps_ban [OF Cons.prems, of uid' st]
  obtain u1 where "users (updateUserTrustScore uid' st s) uid = Some u1" "isShadowBanned u1 = Some True"
    by blast
  from Cons.IH [OF this] show ?case by (simp add: op)
qed


text \<open>
  C7, as amended.  On every verification decision for an existing user,
  \<open>updateUserTrustScore\<close> counts the submission and, when the submissions after the update
  are at least 5 and the rejection rate is at least 0.7, sets \<open>isShadowBanned\<close>.  When the
  stored \<open>trustScore\<close> is absent (read as 1.0) or not zero, the update adds 0.02 to it on
  \<open>AUTO_APPROVED\<close>, capped at 1, subtracts 0.05 on \<open>REJECTED\<close>, floored at 0, and leaves it
  on any other status; for a stored score that is absent or lies in (0, 1], the result
  lies in [0, 1].  No trust update clears \<open>isShadowBanned\<close>: once true, it is true after
  this update and after any sequence of further calls of \<open>updateUserTrustScore\<close>,
  approvals included.
\<close>

theorem trust_update_and_shadow_ban:
  assumes "users s uid = Some userData"
  shows "\<exists>u'. users (updateUserTrustScore uid st s) uid = Some u'
     \<and> (trustScore userData \<noteq> Some 0 \<longrightarrow>
          trustScore u' = Some
            (let t = (case trustScore userData of None \<Rightarrow> 1 | Some t \<Rightarrow> t)
             in if st = ''AUTO_APPROVED'' then min 1 (t + 2 / 100)
                else if st = ''REJECTED'' then max 0 (t - 5 / 100)
                else t))
     \<and> (trustScore userData = None \<or> (\<exists>t. trustScore userData = Some t \<and> 0 < t \<and> t \<le> 1) \<longrightarrow>
          (\<exists>t'. trustScore u' = Some t' \<and> 0 \<le> t' \<and> t' \<le> 1))
     \<and> (\<exists>n r. spotSubmissions u' = Some n \<and> n = js_or (spotSubmissions userData) 0 + 1
           \<and> spotRejectedCount u' = Some r
           \<and> r = js_or (spotRejectedCount userData) 0 + (if st = ''REJECTED'' then 1 else 0)
           \<and> (n \<ge> 5 \<and> real_of_int r / real_of_int n \<ge> 7 / 10 \<longrightarrow> isShadowBanned u' = Some True))
     \<and> (isShadowBanned userData = Some True \<longrightarrow>
          isShadowBanned u' = Some True
          \<and> (\<forall>ops. \<exists>u''. users (foldl (\<lambda>s' (uid', st'). updateUserTrustScore uid' st' s') s ops) uid
                        = Some u'' \<and> isShadowBanned u'' = Some True))"
proof -
  define u' where "u' = the (users (updateUserTrustScore uid st s) uid)"
  have u: "users (updateUserTrustScore uid st s) uid = Some u'"
    using assms(1) by (simp add: u'_def updateUserTrustScore_def Let_def)
  have raw: "trustScore u' = Some
          (let t = js_or (trustScore userData) 1
           in if st = ''AUTO_APPROVED'' then min 1 (t + 2 / 100)
              else if st = ''REJECTED'' then max 0 (t - 5 / 100)
              else t)"
    using assms(1) by (simp add: u'_def updateUserTrustScore_def Let_def)
  have 1: "trustScore userData \<noteq> Some 0 \<longrightarrow>
          trustScore u' = Some
            (let t = (case trustScore userData of None \<Rightarrow> 1 | Some t \<Rightarrow> t)
             in if st = ''AUTO_APPROVED'' then min 1 (t + 2 / 100)
                else if st = ''REJECTED'' then max 0 (t - 5 / 100)
                else t)"
  proof
    assume "trustScore userData \<noteq> Some 0"
    then have "js_or (trustScore userData) 1 = (case trustScore userData of None \<Rightarrow> 1 | Some t \<Rightarrow> t)"
      by (auto simp: js_or_def split: option.splits)
    with raw show "trustScore u' = Some
            (let t = (case trustScore userData of None \<Rightarrow> 1 | Some t \<Rightarrow> t)
             in if st = ''AUTO_APPROVED'' then min 1 (t + 2 / 100)
                else if st = ''REJECTED'' then max 0 (t - 5 / 100)
                else t)"
      by simp
  qed
  have 2: "trustScore userData = None \<or> (\<exists>t. trustScore userData = Some t \<and> 0 < t \<and> t \<le> 1) \<longrightarrow>
          (\<exists>t'. trustScore u' = Some t' \<and> 0 \<le> t' \<and> t' \<le> 1)"
  proof
    assume "trustScore userData = None \<or> (\<exists>t. trustScore userData = Some t \<and> 0 < t \<and> t \<le> 1)"
    then have "0 < js_or (trustScore userData) 1" "js_or (trustScore userData) 1 \<le> 1"
      by (auto simp: js_or_def)
    then show "\<exists>t'. trustScore u' = Some t' \<and> 0 \<le> t' \<and> t' \<le> 1"
      unfolding raw by (auto simp: Let_def)
  qed
  have 3: "\<exists>n r. spotSubmissions u' = Some n \<and> n = js_or (spotSubmissions userData) 0 + 1
           \<and> spotRejectedCount u' = Some r
           \<and> r = js_or (spotRejectedCount userData) 0 + (if st = ''REJECTED'' then 1 else 0)
           \<and> (n \<ge> 5 \<and> real_of_int r / real_of_int n \<ge> 7 / 10 \<longrightarrow> isShadowBanned u' = Some True)"
    using assms(1)
    by (auto simp: u'_def updateUserTrustScore_def Let_def SHADOW_BAN_REJECTION_THRESHOLD_def)
  have 4: "isShadowBanned userData = Some True \<longrightarrow>
          isShadowBanned u' = Some True
          \<and> (\<forall>ops. \<exists>u''. users (foldl (\<lambda>s' (uid', st'). updateUserTrustScore uid' st' s') s ops) uid
                        = Some u'' \<and> isShadowBanned u'' = Some True)"
    using updateUserTrustScore_keeps_ban [OF assms(1), of uid st]
      updateUserTrustScore_fold_keeps_ban [OF assms(1)] u by auto
  from u 1 2 3 4 show ?thesis by blast
qed

lemma reject_struggling:
  "users (updateUserTrustScore ''user1'' ''REJECTED'' trust_store) ''user1'' = Some banned_user"
  by (simp add: updateUserTrustScore_def trust_store_def struggling_user_def banned_user_def
      fresh_user_def js_or_def Let_def SHADOW_BAN_REJECTION_THRESHOLD_def)

lemma approve_banned:
  "map_option isShadowBanned (users (updateUserTrustScore ''user1'' ''AUTO_APPROVED'' banned_store) ''user1'')
     = Some (Some True)"
  by (simp add: updateUserTrustScore_def banned_store_def struggling_user_def banned_user_def
      fresh_user_def js_or_def Let_def SHADOW_BAN_REJECTION_THRESHOLD_def)

theorem trust_update_and_shadow_ban_witness:
  "users trust_store ''user1'' = Some struggling_user
   \<and> trustScore struggling_user = Some (1 / 2)
   \<and> users (updateUserTrustScore ''user1'' ''REJECTED'' trust_store) ''user1'' = Some banned_user
   \<and> trustScore banned_user = Some (45 / 100)
   \<and> spotSubmissions banned_user = Some 5 \<and> spotRejectedCount banned_user = Some 4
   \<and> real_of_int 4 / real_of_int 5 \<ge> (7 / 10 :: real)
   \<and> isShadowBanned banned_user = Some True
   \<and> users banned_store ''user1'' = Some banned_user
   \<and> (\<exists>u'. users (updateUserTrustScore ''user1'' ''AUTO_APPROVED'' banned_store) ''user1'' = Some u'
         \<and> isShadowBanned u' = Some True \<and> trustScore u' = Some (47 / 100)
         \<and> (\<exists>t'. trustScore u' = Some t' \<and> 0 \<le> t' \<and> t' \<le> 1))"
proof -
  have a: "users trust_store ''user1'' = Some struggling_user"
    "users banned_store ''user1'' = Some banned_user"
    by (simp_all add: trust_store_def banned_store_def)
  have b: "trustScore struggling_user = Some (1 / 2)" "trustScore banned_user = Some (45 / 100)"
    "spotSubmissions banned_user = Some 5" "spotRejectedCount banned_user = Some 4"
    "isShadowBanned banned_user = Some True"
    by (simp_all add: struggling_user_def banned_user_def)
  have nz: "trustScore banned_user \<noteq> Some 0" by (simp add: b)
  have h: "trustScore banned_user = None \<or> (\<exists>t. trustScore banned_user = Some t \<and> 0 < t \<and> t \<le> 1)"
    by (rule disjI2, rule exI [of _ "45 / 100"]) (simp add: b)
  from trust_update_and_shadow_ban [OF a(2), of "''AUTO_APPROVED''"] nz h b
  have "\<exists>u'. users (updateUserTrustScore ''user1'' ''AUTO_APPROVED'' banned_store) ''user1'' = Some u'
         \<and> isShadowBanned u' = Some True \<and> trustScore u' = Some (47 / 100)
         \<and> (\<exists>t'. trustScore u' = Some t' \<and> 0 \<le> t' \<and> t' \<le> 1)"
    by (auto simp: Let_def)
  with a b reject_struggling show ?thesis by simp
qed


text \<open>
  A stored trust score of exactly zero is read as 1.0 (\<open>userData.trustScore || 1.0\<close>): a
  rejection of the user of the example with a stored score of 0 writes 0.95.
\<close>

lemma updateUserTrustScore_zero_trust:
  "map_option trustScore
     (users (updateUserTrustScore ''user1'' ''REJECTED''
        (trust_store\<lparr>users := [''user1'' \<mapsto> distrusted_user]\<rparr>)) ''user1'')
     = Some (Some (95 / 100))"
  by (simp add: updateUserTrustScore_def trust_store_def distrusted_user_def struggling_user_def
      fresh_user_def js_or_def Let_def SHADOW_BAN_REJECTION_THRESHOLD_def)


text \<open>
  The claim as stated fails on \<open>cleanupMigration\<close>, which deletes \<open>isShadowBanned\<close> from
  every user: a shadow-banned user is no longer flagged by \<open>checkUserTrust\<close> afterwards.
\<close>

theorem cleanupMigration_clears_shadow_ban_counterexample:
  "map_option isShadowBanned (users banned_store ''user1'') = Some (Some True)
   \<and> fst (cleanupMigration (Some True) banned_store) = Inr ()
   \<and> map_option isShadowBanned (users (snd (cleanupMigration (Some True) banned_store)) ''user1'')
       = Some None
   \<and> flags (checkUserTrust 2000000 (Inr (users banned_store ''user1'')) (Inr 0)) = [''shadow_banned_user'']
   \<and> flags (checkUserTrust 2000000
        (Inr (users (snd (cleanupMigration (Some True) banned_store)) ''user1'')) (Inr 0)) = []"
  by (simp add: cleanupMigration_def banned_store_def banned_user_def struggling_user_def
      fresh_user_def checkUserTrust_def js_or_def js_round_def Let_def MAX_SUBMISSIONS_PER_DAY_def)


end
